theory Spec2Isabelle
  imports Complex_Main
begin

section \<open>Values: NumPy float64 with exact finite arithmetic\<close>

text \<open>
  The simulation computes on NumPy \<open>float64\<close> values. A value is either finite or one of
  the IEEE special values. Finite arithmetic is exact here (no rounding error, no overflow,
  one unsigned zero); what the embedding keeps of IEEE is what the program's control flow
  and the special values need: NumPy never raises on a division by zero, it returns
  \<open>nan\<close> for \<open>0/0\<close> and an infinity for \<open>x/0\<close>, and these values propagate.
\<close>

datatype f64 = Fin real | PInf | NInf | NaN

instantiation f64 :: "{zero, uminus, plus, minus, times, inverse}"
begin

definition zero_f64 :: f64 where
  "zero_f64 = Fin 0"

fun uminus_f64 :: "f64 \<Rightarrow> f64" where
  "uminus_f64 (Fin a) = Fin (- a)"
| "uminus_f64 PInf = NInf"
| "uminus_f64 NInf = PInf"
| "uminus_f64 NaN = NaN"

fun plus_f64 :: "f64 \<Rightarrow> f64 \<Rightarrow> f64" where
  "plus_f64 (Fin a) (Fin b) = Fin (a + b)"
| "plus_f64 NaN y = NaN"
| "plus_f64 x NaN = NaN"
| "plus_f64 PInf NInf = NaN"
| "plus_f64 NInf PInf = NaN"
| "plus_f64 PInf y = PInf"
| "plus_f64 x PInf = PInf"
| "plus_f64 NInf y = NInf"
| "plus_f64 x NInf = NInf"

definition minus_f64 :: "f64 \<Rightarrow> f64 \<Rightarrow> f64" where
  "minus_f64 (x::f64) y = x + (- y)"

text \<open>The sign of an infinity times a finite value; \<open>inf * 0\<close> is \<open>nan\<close>.\<close>

fun signed_inf :: "bool \<Rightarrow> real \<Rightarrow> f64" where
  "signed_inf positive a =
     (if a = 0 then NaN else if (0 < a) = positive then PInf else NInf)"

fun times_f64 :: "f64 \<Rightarrow> f64 \<Rightarrow> f64" where
  "times_f64 (Fin a) (Fin b) = Fin (a * b)"
| "times_f64 NaN y = NaN"
| "times_f64 x NaN = NaN"
| "times_f64 PInf (Fin b) = signed_inf True b"
| "times_f64 NInf (Fin b) = signed_inf False b"
| "times_f64 (Fin a) PInf = signed_inf True a"
| "times_f64 (Fin a) NInf = signed_inf False a"
| "times_f64 PInf PInf = PInf"
| "times_f64 NInf NInf = PInf"
| "times_f64 PInf NInf = NInf"
| "times_f64 NInf PInf = NInf"

text \<open>
  Division never raises: \<open>0/0\<close> is \<open>nan\<close>, \<open>x/0\<close> is an infinity with the sign of
  \<open>x\<close>, a finite value over an infinity is \<open>0\<close>, an infinity over an infinity is \<open>nan\<close>.
\<close>

fun divide_f64 :: "f64 \<Rightarrow> f64 \<Rightarrow> f64" where
  "divide_f64 (Fin a) (Fin b) =
     (if b = 0 then (if a = 0 then NaN else if 0 < a then PInf else NInf)
      else Fin (a / b))"
| "divide_f64 NaN y = NaN"
| "divide_f64 x NaN = NaN"
| "divide_f64 (Fin a) PInf = Fin 0"
| "divide_f64 (Fin a) NInf = Fin 0"
| "divide_f64 PInf (Fin b) = (if 0 \<le> b then PInf else NInf)"
| "divide_f64 NInf (Fin b) = (if 0 \<le> b then NInf else PInf)"
| "divide_f64 PInf y = NaN"
| "divide_f64 NInf y = NaN"

definition inverse_f64 :: "f64 \<Rightarrow> f64" where
  "inverse_f64 (x::f64) = divide (Fin 1) x"

instance ..

end

text \<open>\<open>np.sqrt\<close>: \<open>nan\<close> on a negative argument, no exception.\<close>

fun f_sqrt :: "f64 \<Rightarrow> f64" where
  "f_sqrt (Fin a) = (if a < 0 then NaN else Fin (sqrt a))"
| "f_sqrt PInf = PInf"
| "f_sqrt NInf = NaN"
| "f_sqrt NaN = NaN"

text \<open>\<open>x**2\<close> on a float64.\<close>

definition f_sq :: "f64 \<Rightarrow> f64" where
  "f_sq x = x * x"

fun is_fin :: "f64 \<Rightarrow> bool" where
  "is_fin (Fin a) = True"
| "is_fin x = False"


section \<open>Grids: two-dimensional arrays as lists of rows\<close>

type_synonym 'a grid = "'a list list"

text \<open>\<open>a.shape\<close> of a two-dimensional array (the column count of an array without rows is
  taken as 0: such an array has no cell).\<close>

definition shape :: "'a grid \<Rightarrow> nat \<times> nat" where
  "shape g = (length g, if g = [] then 0 else length (hd g))"

definition has_shape :: "nat \<Rightarrow> nat \<Rightarrow> 'a grid \<Rightarrow> bool" where
  "has_shape ny nx g \<longleftrightarrow> length g = ny \<and> list_all (\<lambda>row. length row = nx) g"

text \<open>\<open>np.zeros((ny, nx))\<close>.\<close>

definition zeros :: "nat \<Rightarrow> nat \<Rightarrow> f64 grid" where
  "zeros ny nx = replicate ny (replicate nx 0)"

text \<open>\<open>g[i, j]\<close> and \<open>g[i, j] = v\<close> (used in range only).\<close>

definition get2 :: "'a grid \<Rightarrow> nat \<Rightarrow> nat \<Rightarrow> 'a" where
  "get2 g i j = g ! i ! j"

definition set2 :: "'a grid \<Rightarrow> nat \<Rightarrow> nat \<Rightarrow> 'a \<Rightarrow> 'a grid" where
  "set2 g i j v = g[i := (g ! i)[j := v]]"


section \<open>The force field: \<open>_calculate_forces\<close>\<close>

definition displacements :: "(int \<times> int) list" where
  "displacements = [(0, -1), (-1, 0), (0, 1), (1, 0)]"

text \<open>\<open>pos[i + dx, j + dy]\<close>: the loops keep \<open>i\<close> and \<open>j\<close> at least 1, so the index is
  never negative.\<close>

definition neighbor :: "f64 grid \<Rightarrow> nat \<Rightarrow> nat \<Rightarrow> int \<times> int \<Rightarrow> f64" where
  "neighbor pos i j dxy = get2 pos (nat (int i + fst dxy)) (nat (int j + snd dxy))"

text \<open>\<open>length = np.sqrt(particle_separation**2 + (pos[i, j] - pos[i + dx, j + dy])**2)\<close>\<close>

definition spring_length :: "real \<Rightarrow> f64 grid \<Rightarrow> nat \<Rightarrow> nat \<Rightarrow> int \<times> int \<Rightarrow> f64" where
  "spring_length particle_separation pos i j dxy =
     f_sqrt (Fin (particle_separation ^ 2) + f_sq (get2 pos i j - neighbor pos i j dxy))"

text \<open>The term added to \<open>forces[i, j]\<close> for one neighbor:
  \<open>- elastic_constant * elongation * (pos[i, j] - pos[i + dx, j + dy]) / length\<close>.\<close>

definition contribution ::
  "real \<Rightarrow> real \<Rightarrow> real \<Rightarrow> f64 grid \<Rightarrow> nat \<Rightarrow> nat \<Rightarrow> int \<times> int \<Rightarrow> f64" where
  "contribution elastic_constant natural_length particle_separation pos i j dxy =
     (let length = spring_length particle_separation pos i j dxy;
          elongation = length - Fin natural_length
      in (- Fin elastic_constant) * elongation * (get2 pos i j - neighbor pos i j dxy) / length)"

text \<open>The body of the innermost loop: \<open>forces[i, j] += ...\<close>.\<close>

definition add_contribution ::
  "real \<Rightarrow> real \<Rightarrow> real \<Rightarrow> f64 grid \<Rightarrow> nat \<Rightarrow> nat \<Rightarrow> int \<times> int \<Rightarrow> f64 grid \<Rightarrow> f64 grid" where
  "add_contribution elastic_constant natural_length particle_separation pos i j dxy forces =
     set2 forces i j
       (get2 forces i j
        + contribution elastic_constant natural_length particle_separation pos i j dxy)"

definition calculate_forces :: "f64 grid \<Rightarrow> real \<Rightarrow> real \<Rightarrow> real \<Rightarrow> f64 grid" where
  "calculate_forces pos elastic_constant natural_length particle_separation =
     (let ny = fst (shape pos); nx = snd (shape pos)
      in fold (\<lambda>i. fold (\<lambda>j. fold
                (add_contribution elastic_constant natural_length particle_separation pos i j)
                displacements)
              [1 ..< nx - 1])
           [1 ..< ny - 1]
           (zeros ny nx))"

text \<open>The sum the four neighbors leave in an interior cell, in the order of the loop.\<close>

definition cell_force :: "real \<Rightarrow> real \<Rightarrow> real \<Rightarrow> f64 grid \<Rightarrow> nat \<Rightarrow> nat \<Rightarrow> f64" where
  "cell_force k L0 d pos i j =
     0 + contribution k L0 d pos i j (0, -1) + contribution k L0 d pos i j (-1, 0)
       + contribution k L0 d pos i j (0, 1) + contribution k L0 d pos i j (1, 0)"

definition interior :: "nat \<Rightarrow> nat \<Rightarrow> nat \<Rightarrow> nat \<Rightarrow> bool" where
  "interior ny nx i j \<longleftrightarrow> 1 \<le> i \<and> i + 1 < ny \<and> 1 \<le> j \<and> j + 1 < nx"


text \<open>What the innermost loop leaves in \<open>forces[i, j]\<close> when it starts from \<open>x\<close>.\<close>

definition add4 :: "real \<Rightarrow> real \<Rightarrow> real \<Rightarrow> f64 grid \<Rightarrow> nat \<Rightarrow> nat \<Rightarrow> f64 \<Rightarrow> f64" where
  "add4 k L0 d pos i j x =
     x + contribution k L0 d pos i j (0, -1) + contribution k L0 d pos i j (-1, 0)
       + contribution k L0 d pos i j (0, 1) + contribution k L0 d pos i j (1, 0)"

text \<open>
  The specification's formula for one spring, between a cell holding \<open>p\<close> and a neighbor
  holding \<open>q\<close>: \<open>-k * (length - L0) * (p - q) / length\<close> with
  \<open>length = sqrt(d^2 + (p - q)^2)\<close>.
\<close>

definition spec_spring_force :: "real \<Rightarrow> real \<Rightarrow> real \<Rightarrow> f64 \<Rightarrow> f64 \<Rightarrow> f64" where
  "spec_spring_force k L0 d p q =
     (let length = f_sqrt (Fin (d ^ 2) + f_sq (p - q))
      in (- Fin k) * (length - Fin L0) * (p - q) / length)"

definition constant_grid :: "nat \<Rightarrow> nat \<Rightarrow> 'a \<Rightarrow> 'a grid" where
  "constant_grid ny nx c = replicate ny (replicate nx c)"


section \<open>Element-wise array arithmetic\<close>

definition grid_map :: "('a \<Rightarrow> 'b) \<Rightarrow> 'a grid \<Rightarrow> 'b grid" where
  "grid_map f g = map (map f) g"

text \<open>Two arrays of one shape, cell by cell (arrays of different shapes, which NumPy
  broadcasts or rejects, are outside the embedding).\<close>

definition grid_map2 :: "('a \<Rightarrow> 'b \<Rightarrow> 'c) \<Rightarrow> 'a grid \<Rightarrow> 'b grid \<Rightarrow> 'c grid" where
  "grid_map2 f a b = map2 (map2 f) a b"

text \<open>\<open>forces / masses\<close>: the division of floats above, so a zero mass gives \<open>nan\<close> or an
  infinity in that cell and no exception.\<close>

definition grid_div_masses :: "f64 grid \<Rightarrow> real grid \<Rightarrow> f64 grid" where
  "grid_div_masses forces masses = grid_map2 (\<lambda>f m. f / Fin m) forces masses"

definition grid_plus :: "f64 grid \<Rightarrow> f64 grid \<Rightarrow> f64 grid" where
  "grid_plus a b = grid_map2 (\<lambda>x y. x + y) a b"

text \<open>\<open>arr[particle_types == 0] = 0\<close> on one grid of the history.\<close>

definition fix_static :: "nat grid \<Rightarrow> f64 grid \<Rightarrow> f64 grid" where
  "fix_static particle_types g = grid_map2 (\<lambda>t v. if t = 0 then 0 else v) particle_types g"


section \<open>The integrator: the loop of \<open>simulate\<close>\<close>

record sim_state =
  time :: "real list"
  pos :: "f64 grid list"
  vel :: "f64 grid list"

text \<open>The arrays before the loop: lines 119 to 123 of \<open>simulation.py\<close>.\<close>

definition init_state :: "real grid \<Rightarrow> nat grid \<Rightarrow> nat \<Rightarrow> sim_state" where
  "init_state initial_pos particle_types n_steps =
     (let ny = fst (shape initial_pos); nx = snd (shape initial_pos);
          time0 = replicate n_steps 0;
          pos0 = replicate n_steps (zeros ny nx);
          vel0 = replicate n_steps (zeros ny nx);
          pos1 = pos0[0 := grid_map Fin initial_pos];
          pos2 = map (fix_static particle_types) pos1
      in \<lparr>time = time0, pos = pos2, vel = vel0\<rparr>)"

text \<open>\<open>pos[step - 1] + vel[step - 1] * timestep + 0.5 * acc_then * timestep**2\<close>\<close>

definition new_pos :: "f64 grid \<Rightarrow> f64 grid \<Rightarrow> f64 grid \<Rightarrow> real \<Rightarrow> f64 grid" where
  "new_pos pos_prev vel_prev acc_then timestep =
     grid_plus
       (grid_plus pos_prev (grid_map (\<lambda>v. v * Fin timestep) vel_prev))
       (grid_map (\<lambda>a. Fin (1 / 2) * a * Fin (timestep ^ 2)) acc_then)"

text \<open>\<open>vel[step - 1] + 0.5 * (acc_then + acc_now) * timestep\<close>\<close>

definition new_vel :: "f64 grid \<Rightarrow> f64 grid \<Rightarrow> f64 grid \<Rightarrow> real \<Rightarrow> f64 grid" where
  "new_vel vel_prev acc_then acc_now timestep =
     grid_plus vel_prev
       (grid_map (\<lambda>a. Fin (1 / 2) * a * Fin timestep) (grid_plus acc_then acc_now))"

text \<open>One pass of the loop body, lines 131 to 157.\<close>

definition integrate_step ::
  "real grid \<Rightarrow> nat grid \<Rightarrow> real \<Rightarrow> real \<Rightarrow> real \<Rightarrow> real \<Rightarrow> nat \<Rightarrow> sim_state \<Rightarrow> sim_state" where
  "integrate_step masses particle_types elastic_constant natural_length particle_separation
       timestep step st =
     (let forces_then = calculate_forces (pos st ! (step - 1))
            elastic_constant natural_length particle_separation;
          acc_then = grid_div_masses forces_then masses;
          pos1 = (pos st)[step := new_pos (pos st ! (step - 1)) (vel st ! (step - 1))
                                     acc_then timestep];
          pos2 = map (fix_static particle_types) pos1;
          forces_now = calculate_forces (pos2 ! step)
            elastic_constant natural_length particle_separation;
          acc_now = grid_div_masses forces_now masses;
          vel1 = (vel st)[step := new_vel (vel st ! (step - 1)) acc_then acc_now timestep];
          vel2 = map (fix_static particle_types) vel1;
          time1 = (time st)[step := time st ! (step - 1) + timestep]
      in \<lparr>time = time1, pos = pos2, vel = vel2\<rparr>)"

text \<open>The arrays after the loop \<open>for step in range(1, n_steps)\<close>.\<close>

definition integrate ::
  "real grid \<Rightarrow> real grid \<Rightarrow> nat grid \<Rightarrow> real \<Rightarrow> real \<Rightarrow> real \<Rightarrow> real \<Rightarrow> nat \<Rightarrow> sim_state" where
  "integrate masses initial_pos particle_types elastic_constant natural_length
       particle_separation timestep n_steps =
     fold (integrate_step masses particle_types elastic_constant natural_length
             particle_separation timestep)
       [1 ..< n_steps]
       (init_state initial_pos particle_types n_steps)"


section \<open>Rounding, resampling and export: the end of \<open>simulate\<close>\<close>

datatype error = ValueError | IndexError

text \<open>\<open>np.rint\<close>: to the nearest integer, a tie to the even one.\<close>

definition rint :: "real \<Rightarrow> int" where
  "rint x =
     (let f = \<lfloor>x\<rfloor>; r = x - of_int f
      in if r < 1 / 2 then f else if 1 / 2 < r then f + 1 else if even f then f else f + 1)"

text \<open>\<open>np.round(x, decimals)\<close> for \<open>decimals \<ge> 0\<close>. \<open>DATAFRAME_DECIMALS\<close> and \<open>FPS\<close> come
  from \<open>configs/global.yml\<close> and are parameters here.\<close>

definition round_real :: "nat \<Rightarrow> real \<Rightarrow> real" where
  "round_real decimals x = of_int (rint (x * 10 ^ decimals)) / 10 ^ decimals"

fun round_f64 :: "nat \<Rightarrow> f64 \<Rightarrow> f64" where
  "round_f64 decimals (Fin a) = Fin (round_real decimals a)"
| "round_f64 decimals x = x"

text \<open>\<open>int(x)\<close> and \<open>astype(np.int64)\<close>: truncation towards zero.\<close>

definition py_int :: "real \<Rightarrow> int" where
  "py_int x = (if 0 \<le> x then \<lfloor>x\<rfloor> else \<lceil>x\<rceil>)"

text \<open>\<open>np.linspace(0, 1, num, endpoint=False)\<close>: \<open>arange(num) * (1 / num) + 0\<close>.\<close>

definition linspace01 :: "nat \<Rightarrow> real list" where
  "linspace01 num = map (\<lambda>k. real k * (1 / real num) + 0) [0 ..< num]"

definition sample_indices :: "nat \<Rightarrow> nat \<Rightarrow> int list" where
  "sample_indices n_rows history_length =
     map (\<lambda>y. py_int (y * real history_length)) (linspace01 n_rows)"

text \<open>Indexing by an integer: a negative index counts from the end, an index out of range
  raises \<open>IndexError\<close>.\<close>

definition py_nth :: "'a list \<Rightarrow> int \<Rightarrow> error + 'a" where
  "py_nth xs i =
     (let n = int (length xs)
      in if 0 \<le> i \<and> i < n then Inr (xs ! nat i)
         else if - n \<le> i \<and> i < 0 then Inr (xs ! nat (n + i))
         else Inl IndexError)"

text \<open>\<open>arr[idx]\<close> and \<open>frame.iloc[idx]\<close> for an integer index array.\<close>

fun take_rows :: "'a list \<Rightarrow> int list \<Rightarrow> error + 'a list" where
  "take_rows xs [] = Inr []"
| "take_rows xs (i # idx) =
     (case py_nth xs i of
        Inl e \<Rightarrow> Inl e
      | Inr x \<Rightarrow> (case take_rows xs idx of Inl e \<Rightarrow> Inl e | Inr r \<Rightarrow> Inr (x # r)))"

text \<open>\<open>n_rows = int(CONFIG["FPS"] * time["Time"].to_numpy()[-1])\<close> on the rounded times.\<close>

definition n_rows_of :: "int \<Rightarrow> nat \<Rightarrow> sim_state \<Rightarrow> int" where
  "n_rows_of FPS decimals st = py_int (of_int FPS * last (map (round_real decimals) (time st)))"

text \<open>Lines 159 to 178: the value returned is the pair \<open>(time, pos)\<close>, the same two objects
  that are written to \<open>time.csv\<close> and \<open>data.pkl\<close>. \<open>np.linspace\<close> raises \<open>ValueError\<close> on
  a negative number of samples.\<close>

definition export :: "int \<Rightarrow> nat \<Rightarrow> sim_state \<Rightarrow> error + (real list \<times> f64 grid list)" where
  "export FPS decimals st =
     (let time1 = map (round_real decimals) (time st);
          pos1 = map (grid_map (round_f64 decimals)) (pos st);
          n_rows = n_rows_of FPS decimals st
      in if n_rows < 0 then Inl ValueError
         else let idx = sample_indices (nat n_rows) (length time1)
              in (case take_rows time1 idx of
                    Inl e \<Rightarrow> Inl e
                  | Inr time2 \<Rightarrow>
                     (case take_rows pos1 idx of
                        Inl e \<Rightarrow> Inl e
                      | Inr pos2 \<Rightarrow> Inr (time2, pos2))))"

text \<open>\<open>simulate\<close>. \<open>np.zeros\<close> raises \<open>ValueError\<close> on a negative \<open>n_steps\<close>, and
  \<open>pos[0] = initial_pos\<close> raises \<open>IndexError\<close> when \<open>n_steps\<close> is 0.\<close>

definition simulate ::
  "real grid \<Rightarrow> real grid \<Rightarrow> nat grid \<Rightarrow> real \<Rightarrow> real \<Rightarrow> real \<Rightarrow> real \<Rightarrow> int \<Rightarrow> int \<Rightarrow> nat
   \<Rightarrow> error + (real list \<times> f64 grid list)" where
  "simulate masses initial_pos particle_types elastic_constant natural_length
       particle_separation timestep n_steps FPS decimals =
     (if n_steps < 0 then Inl ValueError
      else if n_steps = 0 then Inl IndexError
      else export FPS decimals
             (integrate masses initial_pos particle_types elastic_constant natural_length
                particle_separation timestep (nat n_steps)))"


section \<open>Auxiliary notions for the integrator\<close>

text \<open>The specification's acceleration of a cell: \<open>forces(pos) / mass\<close>.\<close>

definition spec_acc :: "real grid \<Rightarrow> real \<Rightarrow> real \<Rightarrow> real \<Rightarrow> f64 grid \<Rightarrow> nat \<Rightarrow> nat \<Rightarrow> f64" where
  "spec_acc masses k L0 d g i j = get2 (calculate_forces g k L0 d) i j / Fin (get2 masses i j)"

text \<open>A history of \<open>n\<close> steps whose grids all have the mesh's shape and are unchanged by
  the static mask.\<close>

definition history_ok :: "nat \<Rightarrow> nat \<Rightarrow> nat \<Rightarrow> nat grid \<Rightarrow> sim_state \<Rightarrow> bool" where
  "history_ok n ny nx particle_types st \<longleftrightarrow>
     length (time st) = n \<and> length (pos st) = n \<and> length (vel st) = n
     \<and> list_all (\<lambda>g. has_shape ny nx g \<and> fix_static particle_types g = g) (pos st)
     \<and> list_all (\<lambda>g. has_shape ny nx g \<and> fix_static particle_types g = g) (vel st)"

text \<open>The two updates of one pass of the loop, read off the arrays after the loop.\<close>

definition verlet_at ::
  "real grid \<Rightarrow> nat grid \<Rightarrow> real \<Rightarrow> real \<Rightarrow> real \<Rightarrow> real \<Rightarrow> sim_state \<Rightarrow> nat \<Rightarrow> bool" where
  "verlet_at masses particle_types k L0 d dt st s \<longleftrightarrow>
     (let acc_then = grid_div_masses (calculate_forces (pos st ! (s - 1)) k L0 d) masses;
          acc_now = grid_div_masses (calculate_forces (pos st ! s) k L0 d) masses
      in time st ! s = time st ! (s - 1) + dt
         \<and> pos st ! s = fix_static particle_types
                           (new_pos (pos st ! (s - 1)) (vel st ! (s - 1)) acc_then dt)
         \<and> vel st ! s = fix_static particle_types
                           (new_vel (vel st ! (s - 1)) acc_then acc_now dt))"


section \<open>Grids and the force field: auxiliary facts\<close>

lemma has_shape_zeros: "has_shape ny nx (zeros ny nx)"
  by (simp add: has_shape_def zeros_def list_all_iff)

lemma get2_zeros: "i < ny \<Longrightarrow> j < nx \<Longrightarrow> get2 (zeros ny nx) i j = 0"
  by (simp add: get2_def zeros_def)

lemma has_shape_row: "has_shape ny nx g \<Longrightarrow> i < ny \<Longrightarrow> length (g ! i) = nx"
  by (auto simp: has_shape_def list_all_length)

lemma has_shape_length: "has_shape ny nx g \<Longrightarrow> length g = ny"
  by (simp add: has_shape_def)

lemma length_set2: "length (set2 g i j v) = length g"
  by (simp add: set2_def)

lemma length_row_set2: "length (set2 g i j v ! i') = length (g ! i')"
  by (cases "i < length g") (auto simp: set2_def nth_list_update list_update_beyond)

lemma has_shape_set2: "has_shape ny nx g \<Longrightarrow> has_shape ny nx (set2 g i j v)"
  by (simp add: has_shape_def list_all_length length_set2 length_row_set2)

lemma get2_set2_raw:
  "i < length g \<Longrightarrow> j < length (g ! i) \<Longrightarrow>
   get2 (set2 g i j v) i' j' = (if i' = i \<and> j' = j then v else get2 g i' j')"
  by (auto simp: get2_def set2_def nth_list_update)

lemma get2_set2:
  "has_shape ny nx g \<Longrightarrow> i < ny \<Longrightarrow> j < nx \<Longrightarrow>
   get2 (set2 g i j v) i' j' = (if i' = i \<and> j' = j then v else get2 g i' j')"
  by (rule get2_set2_raw) (auto simp: has_shape_def list_all_length)

lemma grid_eqI:
  assumes "has_shape ny nx a" "has_shape ny nx b"
    and "\<And>i j. i < ny \<Longrightarrow> j < nx \<Longrightarrow> get2 a i j = get2 b i j"
  shows "a = b"
proof (rule nth_equalityI)
  show "length a = length b" using assms(1,2) by (simp add: has_shape_def)
next
  fix i assume i: "i < length a"
  then have i': "i < ny" using assms(1) by (simp add: has_shape_def)
  show "a ! i = b ! i"
  proof (rule nth_equalityI)
    show "length (a ! i) = length (b ! i)"
      using has_shape_row[OF assms(1) i'] has_shape_row[OF assms(2) i'] by simp
  next
    fix j assume "j < length (a ! i)"
    then have "j < nx" using has_shape_row[OF assms(1) i'] by simp
    from assms(3)[OF i' this] show "a ! i ! j = b ! i ! j" by (simp add: get2_def)
  qed
qed

lemma fold_displacements:
  assumes "has_shape ny nx forces" "i < ny" "j < nx"
  shows "has_shape ny nx (fold (add_contribution k L0 d z i j) displacements forces)"
    and "get2 (fold (add_contribution k L0 d z i j) displacements forces) i' j' =
         (if i' = i \<and> j' = j then add4 k L0 d z i j (get2 forces i j) else get2 forces i' j')"
proof -
  have l: "i < length forces" "j < length (forces ! i)"
    using assms by (auto simp: has_shape_def list_all_length)
  show "has_shape ny nx (fold (add_contribution k L0 d z i j) displacements forces)"
    using assms(1) by (simp add: displacements_def add_contribution_def has_shape_set2)
  show "get2 (fold (add_contribution k L0 d z i j) displacements forces) i' j' =
         (if i' = i \<and> j' = j then add4 k L0 d z i j (get2 forces i j) else get2 forces i' j')"
    using l
    by (simp add: displacements_def add_contribution_def get2_set2_raw length_set2
        length_row_set2 add4_def)
qed

lemma fold_columns:
  assumes "has_shape ny nx forces" "i < ny" "\<forall>j \<in> set js. j < nx" "distinct js"
  shows "has_shape ny nx (fold (\<lambda>j. fold (add_contribution k L0 d z i j) displacements) js forces)
    \<and> get2 (fold (\<lambda>j. fold (add_contribution k L0 d z i j) displacements) js forces) i' j' =
         (if i' = i \<and> j' \<in> set js then add4 k L0 d z i j' (get2 forces i j') else get2 forces i' j')"
  using assms
proof (induction js arbitrary: forces)
  case Nil
  then show ?case by simp
next
  case (Cons j js)
  let ?F = "fold (add_contribution k L0 d z i j) displacements forces"
  have j: "j < nx" using Cons.prems by simp
  have sh: "has_shape ny nx ?F"
    using fold_displacements(1)[OF Cons.prems(1,2) j] .
  have IH: "has_shape ny nx (fold (\<lambda>j. fold (add_contribution k L0 d z i j) displacements) js ?F)
    \<and> get2 (fold (\<lambda>j. fold (add_contribution k L0 d z i j) displacements) js ?F) i' j' =
         (if i' = i \<and> j' \<in> set js then add4 k L0 d z i j' (get2 ?F i j') else get2 ?F i' j')"
    using Cons.IH[OF sh Cons.prems(2)] Cons.prems(3,4) by simp
  show ?case
    using IH Cons.prems(4)
    by (auto simp: fold_displacements(2)[OF Cons.prems(1,2) j])
qed

lemma fold_rows:
  assumes "has_shape ny nx forces" "\<forall>i \<in> set is. i < ny" "distinct is"
    "\<forall>j \<in> set js. j < nx" "distinct js"
  shows "has_shape ny nx
           (fold (\<lambda>i. fold (\<lambda>j. fold (add_contribution k L0 d z i j) displacements) js) is forces)
    \<and> get2 (fold (\<lambda>i. fold (\<lambda>j. fold (add_contribution k L0 d z i j) displacements) js) is forces) i' j' =
         (if i' \<in> set is \<and> j' \<in> set js then add4 k L0 d z i' j' (get2 forces i' j')
          else get2 forces i' j')"
  using assms
proof (induction "is" arbitrary: forces)
  case Nil
  then show ?case by simp
next
  case (Cons i "is")
  let ?F = "fold (\<lambda>j. fold (add_contribution k L0 d z i j) displacements) js forces"
  have i: "i < ny" using Cons.prems by simp
  note fc = fold_columns[OF Cons.prems(1) i Cons.prems(4,5), of k L0 d z]
  have sh: "has_shape ny nx ?F" using fc by simp
  have IH: "has_shape ny nx
           (fold (\<lambda>i. fold (\<lambda>j. fold (add_contribution k L0 d z i j) displacements) js) is ?F)
    \<and> get2 (fold (\<lambda>i. fold (\<lambda>j. fold (add_contribution k L0 d z i j) displacements) js) is ?F) i' j' =
         (if i' \<in> set is \<and> j' \<in> set js then add4 k L0 d z i' j' (get2 ?F i' j')
          else get2 ?F i' j')"
    using Cons.IH[OF sh] Cons.prems(2-5) by simp
  show ?case
    using IH Cons.prems(3) fc
    by auto
qed

lemma shape_of: "has_shape ny nx g \<Longrightarrow> 0 < ny \<Longrightarrow> shape g = (ny, nx)"
  by (cases g) (auto simp: shape_def has_shape_def)

lemma fold_rows_upt:
  shows "has_shape ny nx
           (fold (\<lambda>i. fold (\<lambda>j. fold (add_contribution k L0 d z i j) displacements)
              [1..<nx - 1]) [1..<ny - 1] (zeros ny nx))"
    and "i < ny \<Longrightarrow> j < nx \<Longrightarrow>
         get2 (fold (\<lambda>i. fold (\<lambda>j. fold (add_contribution k L0 d z i j) displacements)
              [1..<nx - 1]) [1..<ny - 1] (zeros ny nx)) i j =
         (if interior ny nx i j then cell_force k L0 d z i j else 0)"
proof -
  have a: "\<forall>i \<in> set [1..<ny - 1]. i < ny" "distinct [1..<ny - 1]"
    "\<forall>j \<in> set [1..<nx - 1]. j < nx" "distinct [1..<nx - 1]"
    by auto
  note fr = fold_rows[OF has_shape_zeros a, of k L0 d z]
  show "has_shape ny nx
           (fold (\<lambda>i. fold (\<lambda>j. fold (add_contribution k L0 d z i j) displacements)
              [1..<nx - 1]) [1..<ny - 1] (zeros ny nx))"
    using fr[of 0 0] by blast
  assume ij: "i < ny" "j < nx"
  have m: "(i \<in> set [1..<ny - 1] \<and> j \<in> set [1..<nx - 1]) = interior ny nx i j"
    by (auto simp: interior_def)
  show "get2 (fold (\<lambda>i. fold (\<lambda>j. fold (add_contribution k L0 d z i j) displacements)
              [1..<nx - 1]) [1..<ny - 1] (zeros ny nx)) i j =
         (if interior ny nx i j then cell_force k L0 d z i j else 0)"
    using fr[of i j] ij unfolding m
    by (simp add: cell_force_def add4_def get2_zeros)
qed

lemma calculate_forces_cells:
  assumes "has_shape ny nx z"
  shows "has_shape ny nx (calculate_forces z k L0 d)"
    and "i < ny \<Longrightarrow> j < nx \<Longrightarrow> get2 (calculate_forces z k L0 d) i j =
         (if interior ny nx i j then cell_force k L0 d z i j else 0)"
proof -
  show "has_shape ny nx (calculate_forces z k L0 d)"
  proof (cases "ny = 0")
    case True
    then show ?thesis using assms by (simp add: calculate_forces_def shape_def has_shape_def zeros_def)
  next
    case False
    then have s: "shape z = (ny, nx)" using shape_of[OF assms] by simp
    show ?thesis
      unfolding calculate_forces_def s Let_def fst_conv snd_conv
      by (rule fold_rows_upt(1))
  qed
next
  assume ij: "i < ny" "j < nx"
  then have s: "shape z = (ny, nx)" using shape_of[OF assms] by simp
  show "get2 (calculate_forces z k L0 d) i j =
         (if interior ny nx i j then cell_force k L0 d z i j else 0)"
    unfolding calculate_forces_def s Let_def fst_conv snd_conv
    by (rule fold_rows_upt(2)[OF ij])
qed



section \<open>The force field: postcondition, division safety, equilibrium\<close>

lemma f64_add_commute: "(a::f64) + b = b + a"
  by (cases a; cases b; simp)

lemma f64_add_assoc: "((a::f64) + b) + c = a + (b + c)"
  by (cases a; cases b; cases c; simp)

lemma f64_add_left_commute: "(a::f64) + (b + c) = b + (a + c)"
  by (cases a; cases b; cases c; simp)

lemma f64_zero_add: "(0::f64) + a = a"
  by (cases a; simp add: zero_f64_def)

lemma contribution_spec:
  "contribution k L0 d z i j dxy = spec_spring_force k L0 d (get2 z i j) (neighbor z i j dxy)"
  by (simp add: contribution_def spec_spring_force_def spring_length_def Let_def)

lemma cell_force_spec:
  assumes "1 \<le> i" "1 \<le> j"
  shows "cell_force k L0 d z i j =
      spec_spring_force k L0 d (get2 z i j) (get2 z (i - 1) j)
    + spec_spring_force k L0 d (get2 z i j) (get2 z (i + 1) j)
    + spec_spring_force k L0 d (get2 z i j) (get2 z i (j - 1))
    + spec_spring_force k L0 d (get2 z i j) (get2 z i (j + 1))"
proof -
  have n: "neighbor z i j (0, -1) = get2 z i (j - 1)" "neighbor z i j (-1, 0) = get2 z (i - 1) j"
    "neighbor z i j (0, 1) = get2 z i (j + 1)" "neighbor z i j (1, 0) = get2 z (i + 1) j"
    using assms by (simp_all add: neighbor_def nat_diff_distrib' nat_add_distrib)
  show ?thesis
    unfolding cell_force_def contribution_spec n f64_zero_add
    by (simp only: f64_add_commute f64_add_assoc f64_add_left_commute)
qed

text \<open>
  C3. For a displacement grid of shape \<open>ny \<times> nx\<close>, the force grid returned by
  \<open>_calculate_forces\<close> has the same shape; at an interior cell \<open>(i, j)\<close>
  (\<open>1 \<le> i \<le> ny - 2\<close>, \<open>1 \<le> j \<le> nx - 2\<close>) it holds the sum over the four axis neighbors
  of the specification's spring formula, and at a border cell it holds exactly 0.
\<close>

theorem force_field_postcondition:
  assumes "has_shape ny nx z" "i < ny" "j < nx"
  shows "has_shape ny nx (calculate_forces z k L0 d)
    \<and> (1 \<le> i \<and> i + 2 \<le> ny \<and> 1 \<le> j \<and> j + 2 \<le> nx \<longrightarrow>
         get2 (calculate_forces z k L0 d) i j =
             spec_spring_force k L0 d (get2 z i j) (get2 z (i - 1) j)
           + spec_spring_force k L0 d (get2 z i j) (get2 z (i + 1) j)
           + spec_spring_force k L0 d (get2 z i j) (get2 z i (j - 1))
           + spec_spring_force k L0 d (get2 z i j) (get2 z i (j + 1)))
    \<and> (i = 0 \<or> i = ny - 1 \<or> j = 0 \<or> j = nx - 1 \<longrightarrow>
         get2 (calculate_forces z k L0 d) i j = 0)"
proof (intro conjI impI)
  show "has_shape ny nx (calculate_forces z k L0 d)"
    by (rule calculate_forces_cells(1)[OF assms(1)])
next
  assume a: "1 \<le> i \<and> i + 2 \<le> ny \<and> 1 \<le> j \<and> j + 2 \<le> nx"
  then have "interior ny nx i j" by (simp add: interior_def)
  then show "get2 (calculate_forces z k L0 d) i j =
             spec_spring_force k L0 d (get2 z i j) (get2 z (i - 1) j)
           + spec_spring_force k L0 d (get2 z i j) (get2 z (i + 1) j)
           + spec_spring_force k L0 d (get2 z i j) (get2 z i (j - 1))
           + spec_spring_force k L0 d (get2 z i j) (get2 z i (j + 1))"
    using calculate_forces_cells(2)[OF assms, of k L0 d] a cell_force_spec[of i j k L0 d z]
    by simp
next
  assume "i = 0 \<or> i = ny - 1 \<or> j = 0 \<or> j = nx - 1"
  then have "\<not> interior ny nx i j" by (auto simp: interior_def)
  then show "get2 (calculate_forces z k L0 d) i j = 0"
    using calculate_forces_cells(2)[OF assms, of k L0 d] by simp
qed

lemmas spec_eval = spec_spring_force_def f_sq_def minus_f64_def zero_f64_def Let_def get2_def
  has_shape_def

text \<open>C3 at a 3 by 3 grid whose centre is displaced by 4, with \<open>k = 1\<close>, \<open>L0 = 0\<close>,
  \<open>d = 3\<close>: every spring has length 5 and pulls the centre with force 4.\<close>

theorem force_field_postcondition_witness:
  "has_shape 3 3 [[0, 0, 0], [0, Fin 4, 0], [0, 0, 0]] \<and> (1::nat) < 3
   \<and> get2 (calculate_forces [[0, 0, 0], [0, Fin 4, 0], [0, 0, 0]] 1 0 3) 1 1 = Fin (- 16)
   \<and> get2 (calculate_forces [[0, 0, 0], [0, Fin 4, 0], [0, 0, 0]] 1 0 3) 0 1 = 0"
  using force_field_postcondition[of 3 3 "[[0, 0, 0], [0, Fin 4, 0], [0, 0, 0]]" 1 1 1 0 3]
    force_field_postcondition[of 3 3 "[[0, 0, 0], [0, Fin 4, 0], [0, 0, 0]]" 0 1 1 0 3]
  by (simp add: spec_eval)

lemma spring_length_nonzero:
  assumes "d \<noteq> 0"
  shows "spring_length d z i j dxy \<noteq> Fin 0"
proof -
  have pos: "0 < d ^ 2 + r * r" for r :: real
    using assms by (metis add_pos_nonneg zero_le_square zero_less_power2)
  show ?thesis
  proof (cases "get2 z i j - neighbor z i j dxy")
    case (Fin r)
    then show ?thesis
      using pos[of r] by (simp add: spring_length_def f_sq_def)
  qed (simp_all add: spring_length_def f_sq_def)
qed

lemma spring_length_finite:
  assumes "get2 z i j = Fin a" "neighbor z i j dxy = Fin b"
  shows "spring_length d z i j dxy = Fin (sqrt (d ^ 2 + (a - b) ^ 2))"
proof -
  have "\<not> d ^ 2 + (a - b) * (a - b) < 0"
    by (simp add: not_less)
  then show ?thesis
    using assms by (simp add: spring_length_def f_sq_def minus_f64_def power2_eq_square)
qed

text \<open>
  C7. With a particle separation \<open>d > 0\<close>, the divisor of every division of the force
  stencil, the spring length, is never zero, whatever the grid holds; between two finite
  cells it is the finite number \<open>sqrt(d^2 + (a - b)^2) \<ge> d\<close>, and the quotient is the finite
  value of the formula.
\<close>

theorem division_safety:
  assumes "0 < d"
  shows "spring_length d z i j dxy \<noteq> Fin 0
    \<and> (get2 z i j = Fin a \<and> neighbor z i j dxy = Fin b \<longrightarrow>
         spring_length d z i j dxy = Fin (sqrt (d ^ 2 + (a - b) ^ 2))
         \<and> d \<le> sqrt (d ^ 2 + (a - b) ^ 2)
         \<and> contribution k L0 d z i j dxy
             = Fin (- k * (sqrt (d ^ 2 + (a - b) ^ 2) - L0) * (a - b) / sqrt (d ^ 2 + (a - b) ^ 2)))"
proof (intro conjI impI)
  show "spring_length d z i j dxy \<noteq> Fin 0"
    using spring_length_nonzero[of d] assms by simp
next
  assume h: "get2 z i j = Fin a \<and> neighbor z i j dxy = Fin b"
  show l: "spring_length d z i j dxy = Fin (sqrt (d ^ 2 + (a - b) ^ 2))"
    using h spring_length_finite by simp
  show g: "d \<le> sqrt (d ^ 2 + (a - b) ^ 2)"
    using assms by (simp add: real_le_rsqrt)
  have "sqrt (d ^ 2 + (a - b) ^ 2) \<noteq> 0" using g assms by linarith
  then show "contribution k L0 d z i j dxy
             = Fin (- k * (sqrt (d ^ 2 + (a - b) ^ 2) - L0) * (a - b) / sqrt (d ^ 2 + (a - b) ^ 2))"
    using h by (simp add: contribution_def l minus_f64_def)
qed


text \<open>C7 at the spring between the centre (displaced by 4) and its left neighbor, with
  \<open>d = 3\<close>.\<close>

theorem division_safety_witness:
  "(0::real) < 3
   \<and> get2 [[0, 0, 0], [0, Fin 4, 0], [0, 0, 0]] 1 1 = Fin 4
   \<and> neighbor [[0, 0, 0], [0, Fin 4, 0], [0, 0, 0]] 1 1 (0, -1) = Fin 0
   \<and> spring_length 3 [[0, 0, 0], [0, Fin 4, 0], [0, 0, 0]] 1 1 (0, -1) = Fin 5
   \<and> contribution 1 0 3 [[0, 0, 0], [0, Fin 4, 0], [0, 0, 0]] 1 1 (0, -1) = Fin (- 4)"
  using division_safety[of 3 "[[0, 0, 0], [0, Fin 4, 0], [0, 0, 0]]" 1 1 "(0, -1)" 4 0 1 0]
  by (simp add: get2_def neighbor_def zero_f64_def)

lemma has_shape_constant_grid: "has_shape ny nx (constant_grid ny nx c)"
  by (simp add: has_shape_def constant_grid_def list_all_iff)

lemma get2_constant_grid: "i < ny \<Longrightarrow> j < nx \<Longrightarrow> get2 (constant_grid ny nx c) i j = c"
  by (simp add: get2_def constant_grid_def)

lemma zeros_constant_grid: "zeros ny nx = constant_grid ny nx 0"
  by (simp add: zeros_def constant_grid_def)

lemma spec_spring_force_equal:
  assumes "d \<noteq> 0"
  shows "spec_spring_force k L0 d (Fin c) (Fin c) = 0"
  using assms by (simp add: spec_spring_force_def f_sq_def minus_f64_def zero_f64_def)

text \<open>
  C10, amended. For every constant finite displacement grid, every \<open>k\<close> and \<open>L0\<close> and every
  particle separation \<open>d \<noteq> 0\<close>, \<open>_calculate_forces\<close> returns the all-zero force grid.
\<close>

theorem uniform_displacement_equilibrium:
  assumes "d \<noteq> 0"
  shows "calculate_forces (constant_grid ny nx (Fin c)) k L0 d = zeros ny nx"
proof (rule grid_eqI)
  show "has_shape ny nx (calculate_forces (constant_grid ny nx (Fin c)) k L0 d)"
    by (rule calculate_forces_cells(1)[OF has_shape_constant_grid])
  show "has_shape ny nx (zeros ny nx)" by (rule has_shape_zeros)
next
  fix i j assume ij: "i < ny" "j < nx"
  have "cell_force k L0 d (constant_grid ny nx (Fin c)) i j = 0" if "interior ny nx i j"
  proof -
    from that have b: "1 \<le> i" "1 \<le> j" "i - 1 < ny" "i + 1 < ny" "j - 1 < nx" "j + 1 < nx"
      by (auto simp: interior_def)
    show ?thesis
      unfolding cell_force_spec[OF b(1,2)]
      using ij b assms
      by (simp add: get2_constant_grid spec_spring_force_equal f64_zero_add)
  qed
  then show "get2 (calculate_forces (constant_grid ny nx (Fin c)) k L0 d) i j
      = get2 (zeros ny nx) i j"
    using calculate_forces_cells(2)[OF has_shape_constant_grid ij, of "Fin c" k L0 d] ij
    by (simp add: get2_zeros)
qed

text \<open>C10, amended, at the 3 by 3 grid holding 2 everywhere, with \<open>d = 1\<close>.\<close>

theorem uniform_displacement_equilibrium_witness:
  "(1::real) \<noteq> 0 \<and> calculate_forces (constant_grid 3 3 (Fin 2)) 1 1 1 = zeros 3 3"
  using uniform_displacement_equilibrium[of 1 3 3 2 1 1] by simp

lemmas grid_eval = calculate_forces_def shape_def zeros_def displacements_def add_contribution_def
  set2_def get2_def contribution_def spring_length_def neighbor_def f_sq_def minus_f64_def
  zero_f64_def Let_def constant_grid_def

text \<open>
  C10 as stated (for every \<open>d\<close>) fails at \<open>d = 0\<close>: on the 3 by 3 grid holding 0 everywhere
  each spring has length 0, the contribution is \<open>0 / 0\<close>, and the centre cell receives
  \<open>nan\<close>, not 0.
\<close>

theorem uniform_displacement_zero_separation_counterexample:
  "calculate_forces (constant_grid 3 3 (Fin 0)) 1 1 0 \<noteq> zeros 3 3
   \<and> get2 (calculate_forces (constant_grid 3 3 (Fin 0)) 1 1 0) 1 1 = NaN"
  by (simp add: grid_eval numeral_3_eq_3)



section \<open>The integrator: shapes, the static mask and the loop invariant\<close>

lemma has_shape_grid_map: "has_shape ny nx g \<Longrightarrow> has_shape ny nx (grid_map f g)"
  by (simp add: has_shape_def grid_map_def list_all_iff)

lemma get2_grid_map:
  "has_shape ny nx g \<Longrightarrow> i < ny \<Longrightarrow> j < nx \<Longrightarrow> get2 (grid_map f g) i j = f (get2 g i j)"
  by (simp add: has_shape_def grid_map_def list_all_length get2_def)

lemma has_shape_grid_map2:
  "has_shape ny nx a \<Longrightarrow> has_shape ny nx b \<Longrightarrow> has_shape ny nx (grid_map2 f a b)"
  by (auto simp: has_shape_def grid_map2_def list_all_length)

lemma get2_grid_map2:
  "has_shape ny nx a \<Longrightarrow> has_shape ny nx b \<Longrightarrow> i < ny \<Longrightarrow> j < nx \<Longrightarrow>
   get2 (grid_map2 f a b) i j = f (get2 a i j) (get2 b i j)"
  by (simp add: has_shape_def grid_map2_def list_all_length get2_def)

lemma has_shape_fix_static:
  "has_shape ny nx pt \<Longrightarrow> has_shape ny nx g \<Longrightarrow> has_shape ny nx (fix_static pt g)"
  by (simp add: fix_static_def has_shape_grid_map2)

lemma get2_fix_static:
  "has_shape ny nx pt \<Longrightarrow> has_shape ny nx g \<Longrightarrow> i < ny \<Longrightarrow> j < nx \<Longrightarrow>
   get2 (fix_static pt g) i j = (if get2 pt i j = 0 then 0 else get2 g i j)"
  by (simp add: fix_static_def get2_grid_map2)

lemma fix_static_idem:
  assumes "has_shape ny nx pt" "has_shape ny nx g"
  shows "fix_static pt (fix_static pt g) = fix_static pt g"
proof (rule grid_eqI)
  show "has_shape ny nx (fix_static pt (fix_static pt g))"
    by (intro has_shape_fix_static assms)
  show "has_shape ny nx (fix_static pt g)"
    by (intro has_shape_fix_static assms)
next
  fix i j assume "i < ny" "j < nx"
  then show "get2 (fix_static pt (fix_static pt g)) i j = get2 (fix_static pt g) i j"
    using assms by (simp add: get2_fix_static has_shape_fix_static)
qed

lemma fix_static_zeros:
  assumes "has_shape ny nx pt"
  shows "fix_static pt (zeros ny nx) = zeros ny nx"
proof (rule grid_eqI)
  show "has_shape ny nx (fix_static pt (zeros ny nx))"
    by (intro has_shape_fix_static assms has_shape_zeros)
  show "has_shape ny nx (zeros ny nx)" by (rule has_shape_zeros)
next
  fix i j assume "i < ny" "j < nx"
  then show "get2 (fix_static pt (zeros ny nx)) i j = get2 (zeros ny nx) i j"
    using assms by (simp add: get2_fix_static has_shape_zeros get2_zeros)
qed

lemma zeros_of_shape:
  assumes "has_shape ny nx g"
  shows "zeros (fst (shape g)) (snd (shape g)) = zeros ny nx"
proof (cases "ny = 0")
  case True
  then show ?thesis using assms by (simp add: has_shape_def shape_def zeros_def)
next
  case False
  then show ?thesis using shape_of[OF assms] by simp
qed

lemma has_shape_new_pos:
  "has_shape ny nx p \<Longrightarrow> has_shape ny nx v \<Longrightarrow> has_shape ny nx a \<Longrightarrow>
   has_shape ny nx (new_pos p v a dt)"
  by (simp add: new_pos_def grid_plus_def has_shape_grid_map2 has_shape_grid_map)

lemma has_shape_new_vel:
  "has_shape ny nx v \<Longrightarrow> has_shape ny nx a \<Longrightarrow> has_shape ny nx b \<Longrightarrow>
   has_shape ny nx (new_vel v a b dt)"
  by (simp add: new_vel_def grid_plus_def has_shape_grid_map2 has_shape_grid_map)

lemma has_shape_acc:
  "has_shape ny nx g \<Longrightarrow> has_shape ny nx masses \<Longrightarrow>
   has_shape ny nx (grid_div_masses (calculate_forces g k L0 d) masses)"
  by (simp add: grid_div_masses_def has_shape_grid_map2 calculate_forces_cells(1))

lemma get2_acc:
  "has_shape ny nx g \<Longrightarrow> has_shape ny nx masses \<Longrightarrow> i < ny \<Longrightarrow> j < nx \<Longrightarrow>
   get2 (grid_div_masses (calculate_forces g k L0 d) masses) i j = spec_acc masses k L0 d g i j"
  by (simp add: grid_div_masses_def get2_grid_map2[where ny=ny and nx=nx]
      calculate_forces_cells(1) spec_acc_def)

lemma get2_new_pos:
  "has_shape ny nx p \<Longrightarrow> has_shape ny nx v \<Longrightarrow> has_shape ny nx a \<Longrightarrow> i < ny \<Longrightarrow> j < nx \<Longrightarrow>
   get2 (new_pos p v a dt) i j =
     get2 p i j + get2 v i j * Fin dt + Fin (1 / 2) * get2 a i j * Fin (dt ^ 2)"
  by (simp add: new_pos_def grid_plus_def get2_grid_map2[where ny=ny and nx=nx]
      get2_grid_map[where ny=ny and nx=nx] has_shape_grid_map2 has_shape_grid_map)

lemma get2_new_vel:
  "has_shape ny nx v \<Longrightarrow> has_shape ny nx a \<Longrightarrow> has_shape ny nx b \<Longrightarrow> i < ny \<Longrightarrow> j < nx \<Longrightarrow>
   get2 (new_vel v a b dt) i j =
     get2 v i j + Fin (1 / 2) * (get2 a i j + get2 b i j) * Fin dt"
  by (simp add: new_vel_def grid_plus_def get2_grid_map2[where ny=ny and nx=nx]
      get2_grid_map[where ny=ny and nx=nx] has_shape_grid_map2 has_shape_grid_map)

lemma init_state_ok:
  assumes "has_shape ny nx initial_pos" "has_shape ny nx pt"
  shows "history_ok n ny nx pt (init_state initial_pos pt n)"
  using assms
  by (auto simp: history_ok_def init_state_def Let_def zeros_of_shape list_all_iff
      fix_static_zeros has_shape_zeros has_shape_fix_static fix_static_idem has_shape_grid_map
      dest!: set_update_subset_insert[THEN subsetD])

lemma init_state_fields:
  assumes "has_shape ny nx initial_pos" "has_shape ny nx pt"
  shows "time (init_state initial_pos pt n) = replicate n 0"
    and "vel (init_state initial_pos pt n) = replicate n (zeros ny nx)"
    and "pos (init_state initial_pos pt n) =
      (replicate n (zeros ny nx))[0 := fix_static pt (grid_map Fin initial_pos)]"
  using assms
  by (simp_all add: init_state_def Let_def zeros_of_shape map_update fix_static_zeros)

lemma history_okD:
  assumes "history_ok n ny nx pt st" "s < n"
  shows "has_shape ny nx (pos st ! s)" "fix_static pt (pos st ! s) = pos st ! s"
    "has_shape ny nx (vel st ! s)" "fix_static pt (vel st ! s) = vel st ! s"
  using assms by (auto simp: history_ok_def list_all_length)

lemma history_ok_maps:
  assumes "history_ok n ny nx pt st"
  shows "map (fix_static pt) (pos st) = pos st" "map (fix_static pt) (vel st) = vel st"
  using assms by (auto simp: history_ok_def list_all_iff intro: map_idI)

lemma integrate_step_fields:
  assumes ok: "history_ok n ny nx pt st"
    and s: "1 \<le> s" "s < n"
  shows "time (integrate_step masses pt k L0 d dt s st) = (time st)[s := time st ! (s - 1) + dt]"
    and "pos (integrate_step masses pt k L0 d dt s st) =
      (pos st)[s := fix_static pt (new_pos (pos st ! (s - 1)) (vel st ! (s - 1))
         (grid_div_masses (calculate_forces (pos st ! (s - 1)) k L0 d) masses) dt)]"
    and "vel (integrate_step masses pt k L0 d dt s st) =
      (vel st)[s := fix_static pt (new_vel (vel st ! (s - 1))
         (grid_div_masses (calculate_forces (pos st ! (s - 1)) k L0 d) masses)
         (grid_div_masses (calculate_forces
            (fix_static pt (new_pos (pos st ! (s - 1)) (vel st ! (s - 1))
               (grid_div_masses (calculate_forces (pos st ! (s - 1)) k L0 d) masses) dt))
            k L0 d) masses) dt)]"
proof -
  have len: "s < length (pos st)" using ok s by (simp add: history_ok_def)
  show "time (integrate_step masses pt k L0 d dt s st) = (time st)[s := time st ! (s - 1) + dt]"
    by (simp add: integrate_step_def Let_def)
  show "pos (integrate_step masses pt k L0 d dt s st) =
      (pos st)[s := fix_static pt (new_pos (pos st ! (s - 1)) (vel st ! (s - 1))
         (grid_div_masses (calculate_forces (pos st ! (s - 1)) k L0 d) masses) dt)]"
    by (simp add: integrate_step_def Let_def map_update history_ok_maps[OF ok])
  show "vel (integrate_step masses pt k L0 d dt s st) =
      (vel st)[s := fix_static pt (new_vel (vel st ! (s - 1))
         (grid_div_masses (calculate_forces (pos st ! (s - 1)) k L0 d) masses)
         (grid_div_masses (calculate_forces
            (fix_static pt (new_pos (pos st ! (s - 1)) (vel st ! (s - 1))
               (grid_div_masses (calculate_forces (pos st ! (s - 1)) k L0 d) masses) dt))
            k L0 d) masses) dt)]"
    using len by (simp add: integrate_step_def Let_def map_update history_ok_maps[OF ok])
qed

lemma integrate_step_ok:
  assumes ok: "history_ok n ny nx pt st"
    and sh: "has_shape ny nx masses" "has_shape ny nx pt"
    and s: "1 \<le> s" "s < n"
  shows "history_ok n ny nx pt (integrate_step masses pt k L0 d dt s st)"
proof -
  let ?A = "grid_div_masses (calculate_forces (pos st ! (s - 1)) k L0 d) masses"
  let ?P = "new_pos (pos st ! (s - 1)) (vel st ! (s - 1)) ?A dt"
  let ?B = "grid_div_masses (calculate_forces (fix_static pt ?P) k L0 d) masses"
  let ?V = "new_vel (vel st ! (s - 1)) ?A ?B dt"
  have s1: "s - 1 < n" using s by simp
  note d = history_okD[OF ok s1]
  have A: "has_shape ny nx ?A" by (rule has_shape_acc[OF d(1) sh(1)])
  have P: "has_shape ny nx ?P" by (rule has_shape_new_pos[OF d(1) d(3) A])
  have FP: "has_shape ny nx (fix_static pt ?P)" by (rule has_shape_fix_static[OF sh(2) P])
  have B: "has_shape ny nx ?B" by (rule has_shape_acc[OF FP sh(1)])
  have V: "has_shape ny nx ?V" by (rule has_shape_new_vel[OF d(3) A B])
  have FV: "has_shape ny nx (fix_static pt ?V)" by (rule has_shape_fix_static[OF sh(2) V])
  have iP: "fix_static pt (fix_static pt ?P) = fix_static pt ?P"
    by (rule fix_static_idem[OF sh(2) P])
  have iV: "fix_static pt (fix_static pt ?V) = fix_static pt ?V"
    by (rule fix_static_idem[OF sh(2) V])
  have upd: "list_all Q (xs[s := y])" if "list_all Q xs" "Q y" for Q and xs :: "f64 grid list" and y
    using that by (auto simp: list_all_iff dest!: set_update_subset_insert[THEN subsetD])
  show ?thesis
    unfolding history_ok_def integrate_step_fields[OF ok s]
    using ok FP FV iP iV by (simp add: history_ok_def upd)
qed

lemma integrate_step_verlet:
  assumes ok: "history_ok n ny nx pt st"
    and s: "1 \<le> s" "s < n"
  shows "verlet_at masses pt k L0 d dt (integrate_step masses pt k L0 d dt s st) s"
proof -
  have len: "s < length (pos st)" "s < length (vel st)" "s < length (time st)"
    using ok s by (simp_all add: history_ok_def)
  have ne: "s - 1 \<noteq> s" using s by simp
  show ?thesis
    unfolding verlet_at_def Let_def integrate_step_fields[OF ok s]
    using len ne by (simp add: nth_list_update)
qed

lemma integrate_step_keeps:
  assumes ok: "history_ok n ny nx pt st"
    and s: "1 \<le> s" "s < n" and r: "r \<noteq> s"
  shows "time (integrate_step masses pt k L0 d dt s st) ! r = time st ! r"
    "pos (integrate_step masses pt k L0 d dt s st) ! r = pos st ! r"
    "vel (integrate_step masses pt k L0 d dt s st) ! r = vel st ! r"
  unfolding integrate_step_fields[OF ok s] using r by simp_all

lemma verlet_at_cong:
  assumes "time st' ! s = time st ! s" "time st' ! (s - 1) = time st ! (s - 1)"
    "pos st' ! s = pos st ! s" "pos st' ! (s - 1) = pos st ! (s - 1)"
    "vel st' ! s = vel st ! s" "vel st' ! (s - 1) = vel st ! (s - 1)"
  shows "verlet_at masses pt k L0 d dt st' s = verlet_at masses pt k L0 d dt st s"
  using assms by (simp add: verlet_at_def)

lemma fold_steps_invariant:
  assumes sh: "has_shape ny nx masses" "has_shape ny nx initial_pos" "has_shape ny nx pt"
    and m: "m \<le> n"
  shows "history_ok n ny nx pt
           (fold (integrate_step masses pt k L0 d dt) [1 ..< m] (init_state initial_pos pt n))
    \<and> (\<forall>s. 1 \<le> s \<and> s < m \<longrightarrow> verlet_at masses pt k L0 d dt
           (fold (integrate_step masses pt k L0 d dt) [1 ..< m] (init_state initial_pos pt n)) s)
    \<and> time (fold (integrate_step masses pt k L0 d dt) [1 ..< m] (init_state initial_pos pt n)) ! 0
        = time (init_state initial_pos pt n) ! 0
    \<and> pos (fold (integrate_step masses pt k L0 d dt) [1 ..< m] (init_state initial_pos pt n)) ! 0
        = pos (init_state initial_pos pt n) ! 0
    \<and> vel (fold (integrate_step masses pt k L0 d dt) [1 ..< m] (init_state initial_pos pt n)) ! 0
        = vel (init_state initial_pos pt n) ! 0"
  using m
proof (induction m)
  case 0
  then show ?case using init_state_ok[OF sh(2,3)] by simp
next
  case (Suc m)
  let ?st = "fold (integrate_step masses pt k L0 d dt) [1 ..< m] (init_state initial_pos pt n)"
  show ?case
  proof (cases "m = 0")
    case True
    then show ?thesis using init_state_ok[OF sh(2,3)] by simp
  next
    case False
    then have m: "1 \<le> m" "m < n" using Suc.prems by simp_all
    have upt: "[1 ..< Suc m] = [1 ..< m] @ [m]" using m by simp
    have IH: "history_ok n ny nx pt ?st"
      "\<forall>s. 1 \<le> s \<and> s < m \<longrightarrow> verlet_at masses pt k L0 d dt ?st s"
      "time ?st ! 0 = time (init_state initial_pos pt n) ! 0"
      "pos ?st ! 0 = pos (init_state initial_pos pt n) ! 0"
      "vel ?st ! 0 = vel (init_state initial_pos pt n) ! 0"
      using Suc.IH m by simp_all
    have f: "fold (integrate_step masses pt k L0 d dt) [1 ..< Suc m]
        (init_state initial_pos pt n) = integrate_step masses pt k L0 d dt m ?st"
      unfolding upt by simp
    note keep = integrate_step_keeps[OF IH(1) m, of _ masses k L0 d dt]
    have v: "verlet_at masses pt k L0 d dt (integrate_step masses pt k L0 d dt m ?st) s"
      if "1 \<le> s" "s < Suc m" for s
    proof (cases "s = m")
      case True
      then show ?thesis using integrate_step_verlet[OF IH(1) m] by simp
    next
      case False
      then have "s < m" using that by simp
      then have "verlet_at masses pt k L0 d dt ?st s" using IH(2) that by simp
      moreover have "s \<noteq> m" "s - 1 \<noteq> m" using \<open>s < m\<close> by simp_all
      ultimately show ?thesis
        using verlet_at_cong[of "integrate_step masses pt k L0 d dt m ?st" s ?st masses pt k L0 d dt]
          keep by simp
    qed
    have z: "0 \<noteq> m" using m by simp
    show ?thesis
      unfolding f
      using integrate_step_ok[OF IH(1) sh(1,3) m] v keep[OF z] IH(3-5) by simp
  qed
qed

lemma integrate_invariant:
  assumes sh: "has_shape ny nx masses" "has_shape ny nx initial_pos" "has_shape ny nx pt"
  shows "history_ok n ny nx pt (integrate masses initial_pos pt k L0 d dt n)"
    and "1 \<le> s \<Longrightarrow> s < n \<Longrightarrow>
         verlet_at masses pt k L0 d dt (integrate masses initial_pos pt k L0 d dt n) s"
    and "0 < n \<Longrightarrow> time (integrate masses initial_pos pt k L0 d dt n) ! 0 = 0"
    and "0 < n \<Longrightarrow> pos (integrate masses initial_pos pt k L0 d dt n) ! 0
           = fix_static pt (grid_map Fin initial_pos)"
    and "0 < n \<Longrightarrow> vel (integrate masses initial_pos pt k L0 d dt n) ! 0 = zeros ny nx"
  using fold_steps_invariant[OF sh, of n n k L0 d dt]
  by (simp_all add: integrate_def init_state_fields[OF sh(2,3)])


section \<open>Times, rounding and resampling: auxiliary facts\<close>

lemma integrate_step_time:
  "time (integrate_step masses pt k L0 d dt s st) = (time st)[s := time st ! (s - 1) + dt]"
  by (simp add: integrate_step_def Let_def)

lemma integrate_step_lengths:
  "length (time (integrate_step masses pt k L0 d dt s st)) = length (time st)"
  "length (pos (integrate_step masses pt k L0 d dt s st)) = length (pos st)"
  "length (vel (integrate_step masses pt k L0 d dt s st)) = length (vel st)"
  by (simp_all add: integrate_step_def Let_def)

lemma init_state_lengths:
  "time (init_state initial_pos pt n) = replicate n 0"
  "length (pos (init_state initial_pos pt n)) = n"
  "length (vel (init_state initial_pos pt n)) = n"
  by (simp_all add: init_state_def Let_def)

lemma fold_steps_time:
  assumes "m \<le> n"
  shows "length (time (fold (integrate_step masses pt k L0 d dt) [1 ..< m]
                         (init_state initial_pos pt n))) = n
    \<and> length (pos (fold (integrate_step masses pt k L0 d dt) [1 ..< m]
                         (init_state initial_pos pt n))) = n
    \<and> length (vel (fold (integrate_step masses pt k L0 d dt) [1 ..< m]
                         (init_state initial_pos pt n))) = n
    \<and> (\<forall>s < n. time (fold (integrate_step masses pt k L0 d dt) [1 ..< m]
                         (init_state initial_pos pt n)) ! s
                 = (if s < m then real s * dt else 0))"
  using assms
proof (induction m)
  case 0
  then show ?case by (simp add: init_state_lengths)
next
  case (Suc m)
  let ?st = "fold (integrate_step masses pt k L0 d dt) [1 ..< m] (init_state initial_pos pt n)"
  show ?case
  proof (cases "m = 0")
    case True
    then show ?thesis by (simp add: init_state_lengths)
  next
    case False
    then have m: "1 \<le> m" "m < n" using Suc.prems by simp_all
    have upt: "[1 ..< Suc m] = [1 ..< m] @ [m]" using m by simp
    have IH: "length (time ?st) = n" "length (pos ?st) = n" "length (vel ?st) = n"
      "\<forall>s < n. time ?st ! s = (if s < m then real s * dt else 0)"
      using Suc.IH m by simp_all
    have prev: "time ?st ! (m - 1) = real (m - 1) * dt"
      using IH(4) m by simp
    have "real (m - 1) * dt + dt = real m * dt"
      using m by (simp add: of_nat_diff algebra_simps)
    then show ?thesis
      unfolding upt
      using IH m prev
      by (auto simp: integrate_step_lengths integrate_step_time nth_list_update)
  qed
qed

lemma integrate_lengths:
  "length (time (integrate masses initial_pos pt k L0 d dt n)) = n"
  "length (pos (integrate masses initial_pos pt k L0 d dt n)) = n"
  "length (vel (integrate masses initial_pos pt k L0 d dt n)) = n"
  using fold_steps_time[of n n masses pt k L0 d dt initial_pos]
  by (simp_all add: integrate_def)

lemma integrate_time:
  "s < n \<Longrightarrow> time (integrate masses initial_pos pt k L0 d dt n) ! s = real s * dt"
  using fold_steps_time[of n n masses pt k L0 d dt initial_pos]
  by (simp add: integrate_def)

lemma rint_nonneg: "0 \<le> x \<Longrightarrow> 0 \<le> rint x"
  by (auto simp: rint_def Let_def)

lemma rint_zero: "rint 0 = 0"
  by (simp add: rint_def)

lemma round_real_nonneg: "0 \<le> x \<Longrightarrow> 0 \<le> round_real decimals x"
  by (simp add: round_real_def rint_nonneg)

lemma round_real_zero: "round_real decimals 0 = 0"
  by (simp add: round_real_def rint_zero)

lemma py_int_floor: "0 \<le> x \<Longrightarrow> py_int x = \<lfloor>x\<rfloor>"
  by (simp add: py_int_def)

lemma last_time:
  assumes "0 < n"
  shows "last (map (round_real decimals) (time (integrate masses initial_pos pt k L0 d dt n)))
    = round_real decimals (real (n - 1) * dt)"
proof -
  let ?t = "time (integrate masses initial_pos pt k L0 d dt n)"
  have l: "length ?t = n" by (rule integrate_lengths)
  then have ne: "map (round_real decimals) ?t \<noteq> []" using assms by auto
  show ?thesis
    using assms l integrate_time[of "n - 1" n masses initial_pos pt k L0 d dt]
    by (simp add: last_conv_nth[OF ne])
qed

lemma n_rows_nonneg:
  assumes "0 < n" "0 \<le> dt" "0 \<le> FPS"
  shows "n_rows_of FPS decimals (integrate masses initial_pos pt k L0 d dt n)
      = \<lfloor>of_int FPS * round_real decimals (real (n - 1) * dt)\<rfloor>"
    and "0 \<le> n_rows_of FPS decimals (integrate masses initial_pos pt k L0 d dt n)"
proof -
  have "0 \<le> round_real decimals (real (n - 1) * dt)"
    using assms by (intro round_real_nonneg) simp
  then have p: "0 \<le> of_int FPS * round_real decimals (real (n - 1) * dt)"
    using assms by simp
  show "n_rows_of FPS decimals (integrate masses initial_pos pt k L0 d dt n)
      = \<lfloor>of_int FPS * round_real decimals (real (n - 1) * dt)\<rfloor>"
    unfolding n_rows_of_def last_time[OF assms(1)] using p by (rule py_int_floor)
  then show "0 \<le> n_rows_of FPS decimals (integrate masses initial_pos pt k L0 d dt n)"
    using p by simp
qed

lemma sample_index_bounds:
  assumes "k < R" "0 < n"
  shows "py_int ((real k * (1 / real R) + 0) * real n) = \<lfloor>real k / real R * real n\<rfloor>"
    and "0 \<le> py_int ((real k * (1 / real R) + 0) * real n)"
    and "py_int ((real k * (1 / real R) + 0) * real n) < int n"
proof -
  have R: "0 < real R" using assms by simp
  have ge: "0 \<le> real k / real R * real n" by simp
  have k1: "real k / real R < 1" using assms R by simp
  have "real k / real R * real n < 1 * real n"
    by (rule mult_strict_right_mono[OF k1]) (use assms in simp)
  then have lt: "real k / real R * real n < real n" by simp
  show e: "py_int ((real k * (1 / real R) + 0) * real n) = \<lfloor>real k / real R * real n\<rfloor>"
    using ge by (simp add: py_int_def)
  show "0 \<le> py_int ((real k * (1 / real R) + 0) * real n)"
    unfolding e using ge by simp
  show "py_int ((real k * (1 / real R) + 0) * real n) < int n"
    unfolding e using lt by (simp add: floor_less_iff)
qed

lemma sample_indices_eq:
  assumes "0 < n"
  shows "sample_indices R n = map (\<lambda>k. \<lfloor>real k / real R * real n\<rfloor>) [0 ..< R]"
proof -
  have "py_int ((real k * (1 / real R) + 0) * real n) = \<lfloor>real k / real R * real n\<rfloor>"
    if "k \<in> set [0 ..< R]" for k
    using that assms by (intro sample_index_bounds(1)) simp_all
  then show ?thesis
    unfolding sample_indices_def linspace01_def map_map comp_def
    by (intro map_cong refl)
qed

lemma sample_indices_bounds:
  assumes "0 < n" "i \<in> set (sample_indices R n)"
  shows "0 \<le> i \<and> i < int n"
  using assms sample_index_bounds(2,3)[of _ R n]
  by (auto simp: sample_indices_def linspace01_def)

lemma length_sample_indices: "length (sample_indices R n) = R"
  by (simp add: sample_indices_def linspace01_def)

lemma take_rows_in_range:
  assumes "\<forall>i \<in> set idx. 0 \<le> i \<and> i < int (length xs)"
  shows "take_rows xs idx = Inr (map (\<lambda>i. xs ! nat i) idx)"
  using assms by (induction idx) (simp_all add: py_nth_def)

lemma export_in_range:
  assumes "length (time st) = n" "length (pos st) = n" "0 < n" "0 \<le> n_rows_of FPS decimals st"
  shows "export FPS decimals st =
    Inr (map (\<lambda>i. round_real decimals (time st ! nat i))
           (sample_indices (nat (n_rows_of FPS decimals st)) n),
         map (\<lambda>i. grid_map (round_f64 decimals) (pos st ! nat i))
           (sample_indices (nat (n_rows_of FPS decimals st)) n))"
proof -
  let ?idx = "sample_indices (nat (n_rows_of FPS decimals st)) n"
  have b: "\<forall>i \<in> set ?idx. 0 \<le> i \<and> i < int n"
    using sample_indices_bounds[OF assms(3)] by blast
  have t: "take_rows (map (round_real decimals) (time st)) ?idx
      = Inr (map (\<lambda>i. round_real decimals (time st ! nat i)) ?idx)"
    using b assms(1) by (subst take_rows_in_range) (auto simp: nat_less_iff)
  have p: "take_rows (map (grid_map (round_f64 decimals)) (pos st)) ?idx
      = Inr (map (\<lambda>i. grid_map (round_f64 decimals) (pos st ! nat i)) ?idx)"
    using b assms(2) by (subst take_rows_in_range) (auto simp: nat_less_iff)
  show ?thesis
    using assms(4) t p by (simp add: export_def Let_def assms(1))
qed


section \<open>The integrator: static particles and the velocity-Verlet step\<close>

lemma masked_cell:
  assumes "has_shape ny nx pt" "has_shape ny nx g" "fix_static pt g = g"
    "i < ny" "j < nx" "get2 pt i j = 0"
  shows "get2 g i j = 0"
proof -
  have "get2 (fix_static pt g) i j = 0"
    using get2_fix_static[OF assms(1,2,4,5)] assms(6) by simp
  then show ?thesis using assms(3) by simp
qed

lemma round_f64_zero: "round_f64 decimals 0 = 0"
  by (simp add: zero_f64_def round_real_zero)

text \<open>
  C1. Static-particle invariant: in the arrays the loop of \<open>simulate\<close> leaves, for every step
  \<open>s < n_steps\<close> and every cell \<open>(i, j)\<close> with \<open>particle_types[i, j] == 0\<close>, the displacement
  \<open>pos[s][i, j]\<close> and the velocity \<open>vel[s][i, j]\<close> are 0, and the displacement is still 0 after
  the rounding of the output.
\<close>

theorem static_particle_invariant:
  assumes "has_shape ny nx masses" "has_shape ny nx initial_pos" "has_shape ny nx particle_types"
    and "s < n_steps" "i < ny" "j < nx" "get2 particle_types i j = 0"
  shows "get2 (pos (integrate masses initial_pos particle_types k L0 d dt n_steps) ! s) i j = 0
    \<and> get2 (vel (integrate masses initial_pos particle_types k L0 d dt n_steps) ! s) i j = 0
    \<and> get2 (grid_map (round_f64 decimals)
              (pos (integrate masses initial_pos particle_types k L0 d dt n_steps) ! s)) i j = 0"
proof -
  let ?st = "integrate masses initial_pos particle_types k L0 d dt n_steps"
  have ok: "history_ok n_steps ny nx particle_types ?st"
    by (rule integrate_invariant(1)[OF assms(1-3)])
  note h = history_okD[OF ok assms(4)]
  have p: "get2 (pos ?st ! s) i j = 0"
    by (rule masked_cell[OF assms(3) h(1) h(2) assms(5-7)])
  have v: "get2 (vel ?st ! s) i j = 0"
    by (rule masked_cell[OF assms(3) h(3) h(4) assms(5-7)])
  have "get2 (grid_map (round_f64 decimals) (pos ?st ! s)) i j = round_f64 decimals 0"
    using get2_grid_map[OF h(1) assms(5,6), of "round_f64 decimals"] p by simp
  then show ?thesis using p v by (simp add: round_f64_zero)
qed

text \<open>C1 at a 3 by 3 mesh whose centre alone is dynamic, two steps, at the corner cell of
  step 1.\<close>

theorem static_particle_invariant_witness:
  "has_shape 3 3 [[1, 1, 1], [1, 1, 1], [1, 1, 1::real]]
   \<and> has_shape 3 3 [[0, 0, 0], [0, 4, 0], [0, 0, 0::real]]
   \<and> has_shape 3 3 [[0, 0, 0], [0, 1, 0], [0, 0, 0::nat]]
   \<and> (1::nat) < 2 \<and> (0::nat) < 3
   \<and> get2 [[0, 0, 0], [0, 1, 0], [0, 0, 0::nat]] 0 0 = 0
   \<and> get2 (pos (integrate [[1, 1, 1], [1, 1, 1], [1, 1, 1]] [[0, 0, 0], [0, 4, 0], [0, 0, 0]]
                  [[0, 0, 0], [0, 1, 0], [0, 0, 0]] 1 0 3 1 2) ! 1) 0 0 = 0
   \<and> get2 (vel (integrate [[1, 1, 1], [1, 1, 1], [1, 1, 1]] [[0, 0, 0], [0, 4, 0], [0, 0, 0]]
                  [[0, 0, 0], [0, 1, 0], [0, 0, 0]] 1 0 3 1 2) ! 1) 0 0 = 0"
  using static_particle_invariant[of 3 3 "[[1, 1, 1], [1, 1, 1], [1, 1, 1]]"
      "[[0, 0, 0], [0, 4, 0], [0, 0, 0]]" "[[0, 0, 0], [0, 1, 0], [0, 0, 0]]" 1 2 0 0 1 0 3 1 0]
  by (simp add: has_shape_def get2_def)

lemma integrate_cells:
  assumes "has_shape ny nx masses" "has_shape ny nx initial_pos" "has_shape ny nx particle_types"
    and "0 < n_steps" "i < ny" "j < nx"
  shows "(let st = integrate masses initial_pos particle_types k L0 d dt n_steps in
      length (time st) = n_steps \<and> length (pos st) = n_steps \<and> length (vel st) = n_steps
    \<and> time st ! 0 = 0
    \<and> get2 (pos st ! 0) i j
        = (if get2 particle_types i j = 0 then 0 else Fin (get2 initial_pos i j))
    \<and> get2 (vel st ! 0) i j = 0
    \<and> (1 \<le> s \<and> s < n_steps \<longrightarrow>
          time st ! s = time st ! (s - 1) + dt
        \<and> get2 (pos st ! s) i j
            = (if get2 particle_types i j = 0 then 0
               else get2 (pos st ! (s - 1)) i j + get2 (vel st ! (s - 1)) i j * Fin dt
                    + Fin (1 / 2) * spec_acc masses k L0 d (pos st ! (s - 1)) i j * Fin (dt ^ 2))
        \<and> get2 (vel st ! s) i j
            = (if get2 particle_types i j = 0 then 0
               else get2 (vel st ! (s - 1)) i j
                    + Fin (1 / 2) * (spec_acc masses k L0 d (pos st ! (s - 1)) i j
                                      + spec_acc masses k L0 d (pos st ! s) i j) * Fin dt)))"
proof -
  let ?st = "integrate masses initial_pos particle_types k L0 d dt n_steps"
  note inv = integrate_invariant[OF assms(1-3), where n=n_steps and k=k and ?L0.0=L0 and d=d and dt=dt]
  have len: "length (time ?st) = n_steps" "length (pos ?st) = n_steps"
    "length (vel ?st) = n_steps"
    using inv(1) by (simp_all add: history_ok_def)
  have t0: "time ?st ! 0 = 0" by (rule inv(3)[OF assms(4)])
  have p0: "get2 (pos ?st ! 0) i j
        = (if get2 particle_types i j = 0 then 0 else Fin (get2 initial_pos i j))"
    unfolding inv(4)[OF assms(4)]
    using assms
    by (simp add: get2_fix_static[where ny=ny and nx=nx] has_shape_grid_map
        get2_grid_map[where ny=ny and nx=nx])
  have v0: "get2 (vel ?st ! 0) i j = 0"
    unfolding inv(5)[OF assms(4)] using assms(5,6) by (rule get2_zeros)
  have step: "time ?st ! s = time ?st ! (s - 1) + dt
      \<and> get2 (pos ?st ! s) i j
            = (if get2 particle_types i j = 0 then 0
               else get2 (pos ?st ! (s - 1)) i j + get2 (vel ?st ! (s - 1)) i j * Fin dt
                    + Fin (1 / 2) * spec_acc masses k L0 d (pos ?st ! (s - 1)) i j * Fin (dt ^ 2))
      \<and> get2 (vel ?st ! s) i j
            = (if get2 particle_types i j = 0 then 0
               else get2 (vel ?st ! (s - 1)) i j
                    + Fin (1 / 2) * (spec_acc masses k L0 d (pos ?st ! (s - 1)) i j
                                      + spec_acc masses k L0 d (pos ?st ! s) i j) * Fin dt)"
    if s: "1 \<le> s" "s < n_steps"
  proof -
    let ?A = "grid_div_masses (calculate_forces (pos ?st ! (s - 1)) k L0 d) masses"
    let ?B = "grid_div_masses (calculate_forces (pos ?st ! s) k L0 d) masses"
    have s1: "s - 1 < n_steps" using s by simp
    note hp = history_okD[OF inv(1) s1]
    note hs = history_okD[OF inv(1) s(2)]
    have A: "has_shape ny nx ?A" by (rule has_shape_acc[OF hp(1) assms(1)])
    have B: "has_shape ny nx ?B" by (rule has_shape_acc[OF hs(1) assms(1)])
    have gA: "get2 ?A i j = spec_acc masses k L0 d (pos ?st ! (s - 1)) i j"
      by (rule get2_acc[OF hp(1) assms(1,5,6)])
    have gB: "get2 ?B i j = spec_acc masses k L0 d (pos ?st ! s) i j"
      by (rule get2_acc[OF hs(1) assms(1,5,6)])
    have v: "time ?st ! s = time ?st ! (s - 1) + dt"
      "pos ?st ! s = fix_static particle_types
                       (new_pos (pos ?st ! (s - 1)) (vel ?st ! (s - 1)) ?A dt)"
      "vel ?st ! s = fix_static particle_types (new_vel (vel ?st ! (s - 1)) ?A ?B dt)"
      using inv(2)[OF s] by (simp_all add: verlet_at_def Let_def)
    have P: "get2 (pos ?st ! s) i j
            = (if get2 particle_types i j = 0 then 0
               else get2 (pos ?st ! (s - 1)) i j + get2 (vel ?st ! (s - 1)) i j * Fin dt
                    + Fin (1 / 2) * get2 ?A i j * Fin (dt ^ 2))"
      by (subst v(2),
          subst get2_fix_static[OF assms(3) has_shape_new_pos[OF hp(1) hp(3) A] assms(5,6)],
          subst get2_new_pos[OF hp(1) hp(3) A assms(5,6)], rule refl)
    have V: "get2 (vel ?st ! s) i j
            = (if get2 particle_types i j = 0 then 0
               else get2 (vel ?st ! (s - 1)) i j
                    + Fin (1 / 2) * (get2 ?A i j + get2 ?B i j) * Fin dt)"
      by (subst v(3),
          subst get2_fix_static[OF assms(3) has_shape_new_vel[OF hp(3) A B] assms(5,6)],
          subst get2_new_vel[OF hp(3) A B assms(5,6)], rule refl)
    show ?thesis using v(1) P V unfolding gA gB by blast
  qed
  show ?thesis
    unfolding Let_def using len t0 p0 v0 step by blast
qed

text \<open>
  C2. Velocity-Verlet step semantics, cell by cell, on the arrays the loop of \<open>simulate\<close>
  leaves: \<open>time[0] = 0\<close>, \<open>pos[0]\<close> is the initial displacement with the static mask applied,
  \<open>vel[0] = 0\<close>; and for every step \<open>1 \<le> s < n_steps\<close>, \<open>time[s] = time[s-1] + dt\<close>,
  \<open>pos[s] = pos[s-1] + vel[s-1]*dt + 0.5*accThen*dt^2\<close> and
  \<open>vel[s] = vel[s-1] + 0.5*(accThen + accNow)*dt\<close>, both zeroed in static cells, where
  \<open>accThen = forces(pos[s-1])/mass\<close> and \<open>accNow = forces(pos[s])/mass\<close>.
\<close>

theorem velocity_verlet_semantics:
  assumes "has_shape ny nx masses" "has_shape ny nx initial_pos" "has_shape ny nx particle_types"
    and "0 < n_steps" "i < ny" "j < nx"
  shows "(let st = integrate masses initial_pos particle_types k L0 d dt n_steps in
      length (time st) = n_steps \<and> length (pos st) = n_steps \<and> length (vel st) = n_steps
    \<and> time st ! 0 = 0
    \<and> get2 (pos st ! 0) i j
        = (if get2 particle_types i j = 0 then 0 else Fin (get2 initial_pos i j))
    \<and> get2 (vel st ! 0) i j = 0
    \<and> (1 \<le> s \<and> s < n_steps \<longrightarrow>
          time st ! s = time st ! (s - 1) + dt
        \<and> get2 (pos st ! s) i j
            = (if get2 particle_types i j = 0 then 0
               else get2 (pos st ! (s - 1)) i j + get2 (vel st ! (s - 1)) i j * Fin dt
                    + Fin (1 / 2) * spec_acc masses k L0 d (pos st ! (s - 1)) i j * Fin (dt ^ 2))
        \<and> get2 (vel st ! s) i j
            = (if get2 particle_types i j = 0 then 0
               else get2 (vel st ! (s - 1)) i j
                    + Fin (1 / 2) * (spec_acc masses k L0 d (pos st ! (s - 1)) i j
                                      + spec_acc masses k L0 d (pos st ! s) i j) * Fin dt)))"
  by (rule integrate_cells[OF assms])

text \<open>C2 at a 3 by 3 mesh whose centre alone is dynamic and displaced by 4, two steps, at the
  centre cell of step 1.\<close>

theorem velocity_verlet_semantics_witness:
  "has_shape 3 3 [[1, 1, 1], [1, 1, 1], [1, 1, 1::real]]
   \<and> has_shape 3 3 [[0, 0, 0], [0, 4, 0], [0, 0, 0::real]]
   \<and> has_shape 3 3 [[0, 0, 0], [0, 1, 0], [0, 0, 0::nat]]
   \<and> (0::nat) < 2 \<and> (1::nat) < 3
   \<and> time (integrate [[1, 1, 1], [1, 1, 1], [1, 1, 1]] [[0, 0, 0], [0, 4, 0], [0, 0, 0]]
                  [[0, 0, 0], [0, 1, 0], [0, 0, 0]] 1 0 3 1 2) ! 1
       = time (integrate [[1, 1, 1], [1, 1, 1], [1, 1, 1]] [[0, 0, 0], [0, 4, 0], [0, 0, 0]]
                  [[0, 0, 0], [0, 1, 0], [0, 0, 0]] 1 0 3 1 2) ! 0 + 1
   \<and> get2 (pos (integrate [[1, 1, 1], [1, 1, 1], [1, 1, 1]] [[0, 0, 0], [0, 4, 0], [0, 0, 0]]
                  [[0, 0, 0], [0, 1, 0], [0, 0, 0]] 1 0 3 1 2) ! 0) 1 1 = Fin 4
   \<and> get2 (vel (integrate [[1, 1, 1], [1, 1, 1], [1, 1, 1]] [[0, 0, 0], [0, 4, 0], [0, 0, 0]]
                  [[0, 0, 0], [0, 1, 0], [0, 0, 0]] 1 0 3 1 2) ! 0) 1 1 = 0"
  using velocity_verlet_semantics[of 3 3 "[[1, 1, 1], [1, 1, 1], [1, 1, 1]]"
      "[[0, 0, 0], [0, 4, 0], [0, 0, 0]]" "[[0, 0, 0], [0, 1, 0], [0, 0, 0]]" 2 1 1 1 0 3 1 1]
  by (simp add: has_shape_def get2_def Let_def)


section \<open>Resampling, the zero-mass run, the returned value, the all-static mesh\<close>

lemma simulate_export:
  assumes "1 \<le> n_steps"
    and "0 \<le> n_rows_of FPS decimals
                 (integrate masses initial_pos pt k L0 d dt (nat n_steps))"
  shows "simulate masses initial_pos pt k L0 d dt n_steps FPS decimals =
    Inr (map (\<lambda>i. round_real decimals
                 (time (integrate masses initial_pos pt k L0 d dt (nat n_steps)) ! nat i))
           (sample_indices
              (nat (n_rows_of FPS decimals
                      (integrate masses initial_pos pt k L0 d dt (nat n_steps))))
              (nat n_steps)),
         map (\<lambda>i. grid_map (round_f64 decimals)
                 (pos (integrate masses initial_pos pt k L0 d dt (nat n_steps)) ! nat i))
           (sample_indices
              (nat (n_rows_of FPS decimals
                      (integrate masses initial_pos pt k L0 d dt (nat n_steps))))
              (nat n_steps)))"
proof -
  have n: "0 < nat n_steps" using assms(1) by simp
  have s: "simulate masses initial_pos pt k L0 d dt n_steps FPS decimals
      = export FPS decimals (integrate masses initial_pos pt k L0 d dt (nat n_steps))"
    using assms(1) by (simp add: simulate_def)
  show ?thesis
    unfolding s
    by (rule export_in_range[OF integrate_lengths(1) integrate_lengths(2) n assms(2)])
qed

text \<open>
  C4. Resampling formula and bounds, for a run of at least one step with a nonnegative
  timestep and a nonnegative \<open>FPS\<close>: the history has \<open>n_steps\<close> entries,
  \<open>nRows = floor(FPS * time[last])\<close> on the rounded times, the sample indices are
  \<open>idx[k] = floor((k / nRows) * historyLength)\<close> for \<open>k = 0 .. nRows - 1\<close>, every index
  satisfies \<open>0 \<le> idx[k] < historyLength\<close> (whether or not \<open>nRows\<close> exceeds
  \<open>historyLength\<close>), and \<open>simulate\<close> returns \<open>nRows\<close> times and \<open>nRows\<close> frames.
\<close>

theorem resampling_formula_and_bounds:
  assumes "1 \<le> n_steps" "0 \<le> dt" "0 \<le> FPS"
  shows "(let st = integrate masses initial_pos particle_types k L0 d dt (nat n_steps);
             history_length = length (time st);
             n_rows = n_rows_of FPS decimals st;
             idx = sample_indices (nat n_rows) history_length
         in history_length = nat n_steps
          \<and> n_rows = \<lfloor>of_int FPS * last (map (round_real decimals) (time st))\<rfloor>
          \<and> 0 \<le> n_rows
          \<and> idx = map (\<lambda>k. \<lfloor>real k / real (nat n_rows) * real history_length\<rfloor>)
                     [0 ..< nat n_rows]
          \<and> (\<forall>i \<in> set idx. 0 \<le> i \<and> i < int history_length)
          \<and> (\<exists>ts ps. simulate masses initial_pos particle_types k L0 d dt n_steps FPS decimals
                        = Inr (ts, ps)
                      \<and> int (length ts) = n_rows \<and> int (length ps) = n_rows))"
proof -
  let ?st = "integrate masses initial_pos particle_types k L0 d dt (nat n_steps)"
  have n: "0 < nat n_steps" using assms(1) by simp
  have len: "length (time ?st) = nat n_steps" by (rule integrate_lengths)
  have r: "n_rows_of FPS decimals ?st
      = \<lfloor>of_int FPS * last (map (round_real decimals) (time ?st))\<rfloor>"
    unfolding n_rows_nonneg(1)[OF n assms(2,3)] last_time[OF n] by (rule refl)
  have r0: "0 \<le> n_rows_of FPS decimals ?st" by (rule n_rows_nonneg(2)[OF n assms(2,3)])
  have i: "sample_indices (nat (n_rows_of FPS decimals ?st)) (nat n_steps)
      = map (\<lambda>k. \<lfloor>real k / real (nat (n_rows_of FPS decimals ?st)) * real (nat n_steps)\<rfloor>)
          [0 ..< nat (n_rows_of FPS decimals ?st)]"
    by (rule sample_indices_eq[OF n])
  have b: "\<forall>i \<in> set (sample_indices (nat (n_rows_of FPS decimals ?st)) (nat n_steps)).
      0 \<le> i \<and> i < int (nat n_steps)"
    using sample_indices_bounds[OF n] by blast
  have e: "\<exists>ts ps. simulate masses initial_pos particle_types k L0 d dt n_steps FPS decimals
                        = Inr (ts, ps)
      \<and> int (length ts) = n_rows_of FPS decimals ?st
      \<and> int (length ps) = n_rows_of FPS decimals ?st"
    unfolding simulate_export[OF assms(1) r0]
    using r0 by (simp add: length_sample_indices)
  show ?thesis
    unfolding Let_def len using r r0 i b e len by simp
qed


lemma upt_0_4: "[0 ..< 4] = [0, 1, 2, 3::nat]"
  by (simp add: upt_rec)

lemma sample_indices_4_3: "sample_indices 4 3 = [0, 0, 1, 2]"
  by (simp add: sample_indices_def linspace01_def py_int_def upt_0_4) 

text \<open>C4 at three steps of timestep 1 sampled at 2 frames per unit of time: 4 frames out of
  a history of 3, at the indices 0, 0, 1, 2.\<close>

theorem resampling_formula_and_bounds_witness:
  "(1::int) \<le> 3 \<and> (0::real) \<le> 1 \<and> (0::int) \<le> 2
   \<and> length (time (integrate [[1]] [[0]] [[1]] 1 1 1 1 (nat 3))) = 3
   \<and> n_rows_of 2 0 (integrate [[1]] [[0]] [[1]] 1 1 1 1 (nat 3)) = 4
   \<and> sample_indices 4 3 = [0, 0, 1, 2]
   \<and> (\<exists>ts ps. simulate [[1]] [[0]] [[1]] 1 1 1 1 3 2 0 = Inr (ts, ps)
                \<and> length ts = 4 \<and> length ps = 4)"
proof -
  define st where "st = integrate [[1]] [[0]] [[1]] 1 1 1 1 (nat 3)"
  have h: "(1::int) \<le> 3" "(0::real) \<le> 1" "(0::int) \<le> 2" by simp_all
  note T = resampling_formula_and_bounds[OF h, of "[[1]]" "[[0]]" "[[1]]" 1 1 1 0,
      unfolded Let_def, folded st_def]
  have l: "last (map (round_real 0) (time st)) = 2"
    unfolding st_def
    using last_time[of "nat 3" 0 "[[1]]" "[[0]]" "[[1]]" 1 1 1 1]
    by (simp add: round_real_def rint_def)
  have len: "length (time st) = 3" using T by simp
  have r: "n_rows_of 2 0 st = 4" using T l by simp
  have e: "\<exists>ts ps. simulate [[1]] [[0]] [[1]] 1 1 1 1 3 2 0 = Inr (ts, ps)
                \<and> length ts = 4 \<and> length ps = 4"
    using T unfolding r by auto
  show ?thesis
    using h len r e unfolding st_def by (simp add: sample_indices_4_3)
qed

lemma sample_indices_none: "sample_indices 0 n = []"
  by (simp add: sample_indices_def linspace01_def)

lemma n_rows_single_step:
  "n_rows_of FPS decimals (integrate masses initial_pos pt k L0 d dt 1) = 0"
  unfolding n_rows_of_def
  using last_time[of 1 decimals masses initial_pos pt k L0 d dt]
  by (simp add: round_real_zero py_int_def)

text \<open>
  C5. Degenerate resampling: whenever \<open>nRows == 0\<close> the run returns an empty time series and
  an empty displacement array instead of failing; a single-step run (\<open>n_steps = 1\<close>) has a
  history of length 1, \<open>time[0] = 0\<close>, hence \<open>nRows = 0\<close>, and returns the empty output.
\<close>

theorem degenerate_resampling:
  "(1 \<le> n_steps
      \<and> n_rows_of FPS decimals
            (integrate masses initial_pos particle_types k L0 d dt (nat n_steps)) = 0
     \<longrightarrow> simulate masses initial_pos particle_types k L0 d dt n_steps FPS decimals
           = Inr ([], []))
   \<and> length (pos (integrate masses initial_pos particle_types k L0 d dt 1)) = 1
   \<and> time (integrate masses initial_pos particle_types k L0 d dt 1) ! 0 = 0
   \<and> n_rows_of FPS decimals (integrate masses initial_pos particle_types k L0 d dt 1) = 0
   \<and> simulate masses initial_pos particle_types k L0 d dt 1 FPS decimals = Inr ([], [])"
proof (intro conjI impI)
  assume a: "1 \<le> n_steps
      \<and> n_rows_of FPS decimals
            (integrate masses initial_pos particle_types k L0 d dt (nat n_steps)) = 0"
  then show "simulate masses initial_pos particle_types k L0 d dt n_steps FPS decimals
           = Inr ([], [])"
    using simulate_export[of n_steps FPS decimals masses initial_pos particle_types k L0 d dt]
    by (simp add: sample_indices_none)
next
  show "length (pos (integrate masses initial_pos particle_types k L0 d dt 1)) = 1"
    by (rule integrate_lengths)
next
  show "time (integrate masses initial_pos particle_types k L0 d dt 1) ! 0 = 0"
    using integrate_time[of 0 1 masses initial_pos particle_types k L0 d dt] by simp
next
  show "n_rows_of FPS decimals (integrate masses initial_pos particle_types k L0 d dt 1) = 0"
    by (rule n_rows_single_step)
next
  show "simulate masses initial_pos particle_types k L0 d dt 1 FPS decimals = Inr ([], [])"
    using simulate_export[of 1 FPS decimals masses initial_pos particle_types k L0 d dt]
      n_rows_single_step[of FPS decimals masses initial_pos particle_types k L0 d dt]
    by (simp add: sample_indices_none)
qed

text \<open>C5 at a single-step run of one particle, 60 frames per second, 3 decimals.\<close>

theorem degenerate_resampling_witness:
  "(1::int) \<le> 1
   \<and> n_rows_of 60 3 (integrate [[1]] [[5]] [[1]] 1 1 1 1 (nat 1)) = 0
   \<and> simulate [[1]] [[5]] [[1]] 1 1 1 1 1 60 3 = Inr ([], [])"
  using degenerate_resampling[of 1 60 3 "[[1]]" "[[5]]" "[[1]]" 1 1 1 1]
  by simp

lemma div_zero_not_fin: "\<not> is_fin (x / Fin 0)"
  by (cases x) simp_all

lemma times_not_fin_left: "\<not> is_fin x \<Longrightarrow> \<not> is_fin (a * x)"
  by (cases x; cases a) simp_all

lemma times_not_fin_right: "\<not> is_fin x \<Longrightarrow> \<not> is_fin (x * a)"
  by (cases x; cases a) simp_all

lemma plus_not_fin: "\<not> is_fin x \<Longrightarrow> \<not> is_fin (a + x)"
  by (cases x; cases a) simp_all

text \<open>
  C6, amended. A zero mass on a dynamic particle does not abort the run: for every
  configuration of matching shapes with \<open>n_steps \<ge> 2\<close>, a nonnegative timestep and a
  nonnegative \<open>FPS\<close> in which \<open>mass[i, j] == 0\<close> for a dynamic cell, the division by the mass
  yields a non-finite value (\<open>nan\<close> or an infinity) in that cell, the displacement and the
  velocity of that cell at step 1 are non-finite, and the run completes and returns its
  \<open>nRows\<close> frames.
\<close>

theorem zero_mass_run_completes:
  assumes "has_shape ny nx masses" "has_shape ny nx initial_pos" "has_shape ny nx particle_types"
    and "2 \<le> n_steps" "0 \<le> dt" "0 \<le> FPS"
    and "i < ny" "j < nx" "get2 masses i j = 0" "get2 particle_types i j \<noteq> 0"
  shows "(\<exists>ts ps. simulate masses initial_pos particle_types k L0 d dt n_steps FPS decimals
                    = Inr (ts, ps)
            \<and> int (length ts) = n_rows_of FPS decimals
                  (integrate masses initial_pos particle_types k L0 d dt (nat n_steps))
            \<and> length ps = length ts)
    \<and> \<not> is_fin (spec_acc masses k L0 d g i j)
    \<and> \<not> is_fin (get2 (pos (integrate masses initial_pos particle_types k L0 d dt
                               (nat n_steps)) ! 1) i j)
    \<and> \<not> is_fin (get2 (vel (integrate masses initial_pos particle_types k L0 d dt
                               (nat n_steps)) ! 1) i j)"
proof -
  let ?st = "integrate masses initial_pos particle_types k L0 d dt (nat n_steps)"
  have n: "0 < nat n_steps" "1 \<le> n_steps" "(1::nat) \<le> 1" "1 < nat n_steps"
    using assms(4) by simp_all
  have r0: "0 \<le> n_rows_of FPS decimals ?st" by (rule n_rows_nonneg(2)[OF n(1) assms(5,6)])
  have e: "\<exists>ts ps. simulate masses initial_pos particle_types k L0 d dt n_steps FPS decimals
                    = Inr (ts, ps)
            \<and> int (length ts) = n_rows_of FPS decimals ?st \<and> length ps = length ts"
    unfolding simulate_export[OF n(2) r0] using r0 by (simp add: length_sample_indices)
  have acc: "\<not> is_fin (spec_acc masses k L0 d g i j)" for g
    unfolding spec_acc_def assms(9) by (rule div_zero_not_fin)
  note c = integrate_cells[OF assms(1-3) n(1) assms(7,8), of k L0 d dt 1, unfolded Let_def]
  have p: "get2 (pos ?st ! 1) i j
      = get2 (pos ?st ! (1 - 1)) i j + get2 (vel ?st ! (1 - 1)) i j * Fin dt
        + Fin (1 / 2) * spec_acc masses k L0 d (pos ?st ! (1 - 1)) i j * Fin (dt ^ 2)"
    using c n(3,4) assms(10) by simp
  have v: "get2 (vel ?st ! 1) i j
      = get2 (vel ?st ! (1 - 1)) i j
        + Fin (1 / 2) * (spec_acc masses k L0 d (pos ?st ! (1 - 1)) i j
                          + spec_acc masses k L0 d (pos ?st ! 1) i j) * Fin dt"
    using c n(3,4) assms(10) by simp
  have np: "\<not> is_fin (get2 (pos ?st ! 1) i j)"
    unfolding p
    by (intro plus_not_fin times_not_fin_right times_not_fin_left acc)
  have nv: "\<not> is_fin (get2 (vel ?st ! 1) i j)"
    unfolding v
    by (intro plus_not_fin times_not_fin_right times_not_fin_left acc)
  show ?thesis using e acc np nv by blast
qed

lemmas sim_eval = simulate_def integrate_def integrate_step_def init_state_def export_def
  n_rows_of_def sample_indices_def linspace01_def py_int_def py_nth_def round_real_def rint_def
  new_pos_def new_vel_def grid_plus_def grid_div_masses_def fix_static_def grid_map_def
  grid_map2_def calculate_forces_def shape_def zeros_def displacements_def add_contribution_def
  set2_def get2_def contribution_def spring_length_def neighbor_def f_sq_def minus_f64_def
  zero_f64_def Let_def

lemma upt_1_2: "[1 ..< 2] = [1::nat]"
  by (simp add: upt_rec)

text \<open>C6, amended, at a 3 by 3 mesh at rest whose centre is dynamic with mass 0.\<close>

theorem zero_mass_run_completes_witness:
  "has_shape 3 3 [[1, 1, 1], [1, 0, 1], [1, 1, 1::real]]
   \<and> has_shape 3 3 [[0, 0, 0], [0, 0, 0], [0, 0, 0::real]]
   \<and> has_shape 3 3 [[0, 0, 0], [0, 1, 0], [0, 0, 0::nat]]
   \<and> (2::int) \<le> 2 \<and> (0::real) \<le> 1 \<and> (0::int) \<le> 2 \<and> (1::nat) < 3
   \<and> get2 [[1, 1, 1], [1, 0, 1], [1, 1, 1::real]] 1 1 = 0
   \<and> get2 [[0, 0, 0], [0, 1, 0], [0, 0, 0::nat]] 1 1 \<noteq> 0
   \<and> (\<exists>ts ps. simulate [[1, 1, 1], [1, 0, 1], [1, 1, 1]] [[0, 0, 0], [0, 0, 0], [0, 0, 0]]
                  [[0, 0, 0], [0, 1, 0], [0, 0, 0]] 1 1 1 1 2 2 0 = Inr (ts, ps))
   \<and> \<not> is_fin (get2 (pos (integrate [[1, 1, 1], [1, 0, 1], [1, 1, 1]]
                  [[0, 0, 0], [0, 0, 0], [0, 0, 0]]
                  [[0, 0, 0], [0, 1, 0], [0, 0, 0]] 1 1 1 1 (nat 2)) ! 1) 1 1)"
proof -
  have h: "has_shape 3 3 [[1, 1, 1], [1, 0, 1], [1, 1, 1::real]]"
    "has_shape 3 3 [[0, 0, 0], [0, 0, 0], [0, 0, 0::real]]"
    "has_shape 3 3 [[0, 0, 0], [0, 1, 0], [0, 0, 0::nat]]"
    "(2::int) \<le> 2" "(0::real) \<le> 1" "(0::int) \<le> 2" "(1::nat) < 3" "(1::nat) < 3"
    "get2 [[1, 1, 1], [1, 0, 1], [1, 1, 1::real]] 1 1 = 0"
    "get2 [[0, 0, 0], [0, 1, 0], [0, 0, 0::nat]] 1 1 \<noteq> 0"
    by (simp_all add: has_shape_def get2_def)
  note T = zero_mass_run_completes[OF h, of 1 1 1 0]
  show ?thesis using h T by blast
qed

text \<open>
  C6 as stated fails: on a 3 by 3 mesh at rest whose centre is dynamic with mass 0, two steps
  of timestep 1 at 2 frames per unit of time, the run does not fail; it returns both frames,
  the second holding \<open>nan\<close> at the centre.
\<close>

theorem zero_mass_exports_nan_counterexample:
  "get2 [[1, 1, 1], [1, 0, 1], [1, 1, 1::real]] 1 1 = 0
   \<and> get2 [[0, 0, 0], [0, 1, 0], [0, 0, 0::nat]] 1 1 = 1
   \<and> simulate [[1, 1, 1], [1, 0, 1], [1, 1, 1]] [[0, 0, 0], [0, 0, 0], [0, 0, 0]]
        [[0, 0, 0], [0, 1, 0], [0, 0, 0]] 1 1 1 1 2 2 0
      = Inr ([0, 1],
             [[[0, 0, 0], [0, 0, 0], [0, 0, 0]], [[0, 0, 0], [0, NaN, 0], [0, 0, 0]]])"
  by (simp add: sim_eval upt_1_2 numeral_2_eq_2 numeral_3_eq_3 upt_rec)

text \<open>
  C8, amended. For a run of at least one step with a nonnegative timestep and a nonnegative
  \<open>FPS\<close>, \<open>simulate\<close> returns a pair: the rounded times and the rounded displacement grids
  at the sample indices. The velocity history is not part of the result: the exported value
  is the same whatever the velocity history holds.
\<close>

theorem simulate_returns_times_and_displacements:
  assumes "1 \<le> n_steps" "0 \<le> dt" "0 \<le> FPS"
  shows "(let st = integrate masses initial_pos particle_types k L0 d dt (nat n_steps);
             idx = sample_indices (nat (n_rows_of FPS decimals st)) (nat n_steps)
         in simulate masses initial_pos particle_types k L0 d dt n_steps FPS decimals
              = Inr (map (\<lambda>i. round_real decimals (time st ! nat i)) idx,
                     map (\<lambda>i. grid_map (round_f64 decimals) (pos st ! nat i)) idx)
            \<and> export FPS decimals (st\<lparr>vel := v\<rparr>) = export FPS decimals st)"
proof -
  have n: "0 < nat n_steps" using assms(1) by simp
  show ?thesis
    unfolding Let_def
    using simulate_export[OF assms(1) n_rows_nonneg(2)[OF n assms(2,3)]]
    by (simp add: export_def n_rows_of_def)
qed

text \<open>C8, amended, at a 3 by 3 mesh whose centre is dynamic and displaced by 4.\<close>

theorem simulate_returns_times_and_displacements_witness:
  "(1::int) \<le> 2 \<and> (0::real) \<le> 1 \<and> (0::int) \<le> 1
   \<and> (\<exists>ts ps. simulate [[1, 1, 1], [1, 1, 1], [1, 1, 1]] [[0, 0, 0], [0, 4, 0], [0, 0, 0]]
          [[0, 0, 0], [0, 1, 0], [0, 0, 0]] 1 0 3 1 2 1 0 = Inr (ts, ps))"
proof -
  have h: "(1::int) \<le> 2" "(0::real) \<le> 1" "(0::int) \<le> 1" by simp_all
  note T = simulate_returns_times_and_displacements[OF h,
      of "[[1, 1, 1], [1, 1, 1], [1, 1, 1]]" "[[0, 0, 0], [0, 4, 0], [0, 0, 0]]"
         "[[0, 0, 0], [0, 1, 0], [0, 0, 0]]" 1 0 3 0, unfolded Let_def]
  show ?thesis using h T by blast
qed

text \<open>
  C8 as stated fails: two runs that differ only in the masses (1 and 2) return the same pair,
  one time and one displacement grid, while their velocity histories differ (the centre has
  velocity 0 in one and -4 in the other at step 1): the result does not hold the velocity
  history.
\<close>

theorem velocity_history_not_returned_counterexample:
  "simulate [[1, 1, 1], [1, 1, 1], [1, 1, 1]] [[0, 0, 0], [0, 4, 0], [0, 0, 0]]
      [[0, 0, 0], [0, 1, 0], [0, 0, 0]] 1 0 3 1 2 1 0
   = simulate [[2, 2, 2], [2, 2, 2], [2, 2, 2]] [[0, 0, 0], [0, 4, 0], [0, 0, 0]]
      [[0, 0, 0], [0, 1, 0], [0, 0, 0]] 1 0 3 1 2 1 0
   \<and> simulate [[1, 1, 1], [1, 1, 1], [1, 1, 1]] [[0, 0, 0], [0, 4, 0], [0, 0, 0]]
      [[0, 0, 0], [0, 1, 0], [0, 0, 0]] 1 0 3 1 2 1 0
     = Inr ([0], [[[0, 0, 0], [0, Fin 4, 0], [0, 0, 0]]])
   \<and> vel (integrate [[1, 1, 1], [1, 1, 1], [1, 1, 1]] [[0, 0, 0], [0, 4, 0], [0, 0, 0]]
      [[0, 0, 0], [0, 1, 0], [0, 0, 0]] 1 0 3 1 2)
     = [[[0, 0, 0], [0, 0, 0], [0, 0, 0]], [[0, 0, 0], [0, 0, 0], [0, 0, 0]]]
   \<and> vel (integrate [[2, 2, 2], [2, 2, 2], [2, 2, 2]] [[0, 0, 0], [0, 4, 0], [0, 0, 0]]
      [[0, 0, 0], [0, 1, 0], [0, 0, 0]] 1 0 3 1 2)
     = [[[0, 0, 0], [0, 0, 0], [0, 0, 0]], [[0, 0, 0], [0, Fin (- 4), 0], [0, 0, 0]]]"
  by (simp add: sim_eval upt_1_2 numeral_2_eq_2 numeral_3_eq_3 upt_rec)

text \<open>
  C9 on the code: with every particle static and an initial displacement of 1 in every cell
  of a 2 by 2 mesh, the displacement grid is 0 at every step, the first included, while the
  rounded initial displacement grid holds 1 everywhere; the exported frame is the zero grid.
\<close>

theorem all_static_zeroes_initial_displacement:
  "pos (integrate [[1, 1], [1, 1]] [[1, 1], [1, 1]] [[0, 0], [0, 0]] 1 1 1 1 2)
     = [[[0, 0], [0, 0]], [[0, 0], [0, 0]]]
   \<and> grid_map (round_f64 0) (grid_map Fin [[1, 1], [1, 1]])
     = [[Fin 1, Fin 1], [Fin 1, Fin 1]]
   \<and> simulate [[1, 1], [1, 1]] [[1, 1], [1, 1]] [[0, 0], [0, 0]] 1 1 1 1 2 1 0
     = Inr ([0], [[[0, 0], [0, 0]]])"
  by (simp add: sim_eval upt_1_2 numeral_2_eq_2)

end
